theory Spec2Isabelle
  imports Complex_Main
begin

section \<open>Child processes (core/process.py)\<close>

text \<open>
  A \<open>subprocess.Popen\<close> handle together with the part of the operating system it talks
  to. The first five fields describe the child as the environment gives it; \<open>calls\<close>
  records, in order, every call the supervisor makes on the handle and every
  \<open>time.sleep(0.1)\<close> of the polling loop.
  \<^item> \<open>exited\<close>: \<open>poll()\<close> is not \<open>None\<close>;
  \<^item> \<open>sigterm_ticks\<close>: how many 100 ms sleeps after SIGTERM the child needs before it
    exits (\<open>None\<close>: it ignores SIGTERM);
  \<^item> \<open>countdown\<close>: the sleeps still missing once SIGTERM was delivered;
  \<^item> \<open>signal_error\<close>: sending a signal raises (for example \<open>PermissionError\<close>);
  \<^item> \<open>kill_effective\<close>: SIGKILL ends the child within the one-second wait.
\<close>

datatype call = Poll | SendTerminate | SendKill | Sleep100 | Wait1s

text \<open>The exceptions of the program, as values.\<close>

datatype error =
    OSError
  | TimeoutExpired
  | KeyError
  | IndexError
  | TypeError
  | AttributeError
  | ValidationError
  | OverflowError
  | ValueError
  | HTTPException nat

record process =
  exited :: bool
  sigterm_ticks :: "nat option"
  countdown :: "nat option"
  signal_error :: bool
  kill_effective :: bool
  calls :: "call list"

definition called :: "call \<Rightarrow> process \<Rightarrow> process" where
  "called c p = p\<lparr>calls := calls p @ [c]\<rparr>"

text \<open>\<open>process.poll()\<close>: \<open>True\<close> stands for a return code, \<open>False\<close> for \<open>None\<close>.\<close>

definition poll :: "process \<Rightarrow> bool \<times> process" where
  "poll p = (exited p, called Poll p)"

text \<open>
  \<open>process.terminate()\<close> and \<open>process.kill()\<close>: \<open>Popen.send_signal\<close> does nothing on a
  child that has already exited; otherwise the signal is sent, or the call raises.
\<close>

definition terminate :: "process \<Rightarrow> error option \<times> process" where
  "terminate p =
     (let p1 = called SendTerminate p in
      if exited p1 then (None, p1)
      else if signal_error p1 then (Some OSError, p1)
      else (None, p1\<lparr>countdown := sigterm_ticks p1,
                      exited := (sigterm_ticks p1 = Some 0)\<rparr>))"

definition kill :: "process \<Rightarrow> error option \<times> process" where
  "kill p =
     (let p1 = called SendKill p in
      if exited p1 then (None, p1)
      else if signal_error p1 then (Some OSError, p1)
      else (None, p1\<lparr>exited := kill_effective p1\<rparr>))"

text \<open>\<open>process.wait(1.0)\<close> raises \<open>TimeoutExpired\<close> when the child is still there.\<close>

definition wait :: "process \<Rightarrow> error option \<times> process" where
  "wait p =
     (let p1 = called Wait1s p in
      if exited p1 then (None, p1) else (Some TimeoutExpired, p1))"

text \<open>\<open>time.sleep(0.1)\<close>: one tick of the child's countdown.\<close>

definition sleep :: "process \<Rightarrow> process" where
  "sleep p =
     (let p1 = called Sleep100 p in
      case countdown p1 of
        None \<Rightarrow> p1
      | Some 0 \<Rightarrow> p1
      | Some (Suc k) \<Rightarrow> p1\<lparr>countdown := Some k, exited := (exited p1 \<or> k = 0)\<rparr>)"

subsection \<open>Python floats\<close>

text \<open>
  A Python \<open>float\<close> is an IEEE 754 double: a finite value (a real number that a double
  can hold), an infinity or a NaN.
\<close>

datatype pyfloat = Finite real | PosInf | NegInf | NaN

text \<open>Rounding to the nearest integer, ties to the even one.\<close>

definition round_half_even :: "real \<Rightarrow> int" where
  "round_half_even y =
     (let f = \<lfloor>y\<rfloor>; d = y - of_int f in
      if d < 1 / 2 then f
      else if 1 / 2 < d then f + 1
      else if even f then f else f + 1)"

text \<open>
  The exponent of the unit in the last place of the double nearest to \<open>x\<close>: 52 binary
  places below the leading bit of \<open>x\<close>, and never below the subnormal range.
\<close>

definition ulp_exponent :: "real \<Rightarrow> int" where
  "ulp_exponent x = max \<lfloor>log 2 \<bar>x\<bar>\<rfloor> (- 1022) - 52"

text \<open>
  The exact result of an arithmetic operation rounded to double precision (round to
  nearest, ties to even): the nearest multiple of the unit in the last place.
\<close>

definition round_double :: "real \<Rightarrow> real" where
  "round_double x =
     (if x = 0 then 0
      else of_int (round_half_even (x / 2 powr of_int (ulp_exponent x)))
             * 2 powr of_int (ulp_exponent x))"

text \<open>
  \<open>a * c\<close> for a float \<open>a\<close> and a finite constant \<open>c\<close>: the rounded product, an infinity
  when it leaves the range of the doubles.
\<close>

definition float_times :: "pyfloat \<Rightarrow> real \<Rightarrow> pyfloat" where
  "float_times a c =
     (case a of
        Finite x \<Rightarrow>
          (let y = round_double (x * c) in
           if 2 ^ 1024 \<le> y then PosInf
           else if y \<le> - (2 ^ 1024) then NegInf
           else Finite y)
      | PosInf \<Rightarrow> (if 0 < c then PosInf else if c < 0 then NegInf else NaN)
      | NegInf \<Rightarrow> (if 0 < c then NegInf else if c < 0 then PosInf else NaN)
      | NaN \<Rightarrow> NaN)"

text \<open>Truncation towards zero.\<close>

definition trunc :: "real \<Rightarrow> int" where
  "trunc x = (if 0 \<le> x then \<lfloor>x\<rfloor> else \<lceil>x\<rceil>)"

text \<open>
  Python's \<open>int()\<close> on a float truncates towards zero; it raises \<open>OverflowError\<close> on an
  infinity and \<open>ValueError\<close> on a NaN.
\<close>

definition py_int :: "pyfloat \<Rightarrow> error + int" where
  "py_int a =
     (case a of
        Finite x \<Rightarrow> Inr (trunc x)
      | PosInf \<Rightarrow> Inl OverflowError
      | NegInf \<Rightarrow> Inl OverflowError
      | NaN \<Rightarrow> Inl ValueError)"

text \<open>\<open>range(k)\<close> has \<open>k\<close> elements, none when \<open>k\<close> is negative.\<close>

definition range_len :: "int \<Rightarrow> nat" where
  "range_len k = nat k"

text \<open>
  The loop \<open>for _ in range(int(timeout * 10))\<close>: \<open>True\<close> when a poll saw the child gone
  (the source returns from inside the loop), \<open>False\<close> when the range is exhausted.
\<close>

fun wait_for_exit :: "nat \<Rightarrow> process \<Rightarrow> bool \<times> process" where
  "wait_for_exit 0 p = (False, p)"
| "wait_for_exit (Suc n) p =
     (case poll p of
        (True, p1) \<Rightarrow> (True, p1)
      | (False, p1) \<Rightarrow> wait_for_exit n (sleep p1))"

text \<open>The \<open>except Exception\<close> handler: one last \<open>kill()\<close>, any error of it ignored.\<close>

definition last_kill :: "process \<Rightarrow> bool \<times> process" where
  "last_kill p = (False, snd (kill p))"

text \<open>
  What follows the polling loop when the child is still there: SIGKILL and a wait of up
  to one second.
\<close>

definition force_kill :: "process \<Rightarrow> bool \<times> process" where
  "force_kill p =
     (case kill p of
        (Some e, p1) \<Rightarrow> last_kill p1
      | (None, p1) \<Rightarrow>
          (case wait p1 of
             (Some e, p2) \<Rightarrow> last_kill p2
           | (None, p2) \<Rightarrow> (False, p2)))"

text \<open>
  \<open>terminate_process_gracefully(process, timeout)\<close>. The result is \<open>True\<close> for a
  graceful end and \<open>False\<close> when the child had to be killed. The number of polling
  rounds is \<open>int(timeout * 10)\<close>, the product being a float product; when \<open>int()\<close>
  raises, the handler runs.
\<close>

definition terminate_process_gracefully :: "process \<Rightarrow> pyfloat \<Rightarrow> bool \<times> process" where
  "terminate_process_gracefully p timeout =
     (case poll p of
        (True, p0) \<Rightarrow> (True, p0)
      | (False, p0) \<Rightarrow>
          (case terminate p0 of
             (Some e, p1) \<Rightarrow> last_kill p1
           | (None, p1) \<Rightarrow>
               (case py_int (float_times timeout 10) of
                  Inl e \<Rightarrow> last_kill p1
                | Inr k \<Rightarrow>
                    (case wait_for_exit (range_len k) p1 of
                       (True, p2) \<Rightarrow> (True, p2)
                     | (False, p2) \<Rightarrow> force_kill p2))))"

text \<open>
  The number of polling rounds for a finite timeout whose tenfold stays a finite double.
\<close>

definition poll_rounds :: "real \<Rightarrow> nat" where
  "poll_rounds t = range_len (trunc (round_double (t * 10)))"

section \<open>Python values, dictionaries, strings and paths\<close>

text \<open>
  The values stored in the untyped tuples and dictionaries of the program. Strings are
  sequences of code points below 256.
\<close>

datatype pyval =
    PStr string
  | PNone
  | PBool bool
  | PNum real
  | PList "pyval list"
  | PDict "(string \<times> pyval) list"

text \<open>Python's truth value of an object (\<open>if x:\<close>, \<open>not x\<close>, \<open>x or y\<close>).\<close>

fun truthy :: "pyval \<Rightarrow> bool" where
  "truthy (PStr s) = (s \<noteq> [])"
| "truthy PNone = False"
| "truthy (PBool b) = b"
| "truthy (PNum x) = (x \<noteq> 0)"
| "truthy (PList xs) = (xs \<noteq> [])"
| "truthy (PDict d) = (d \<noteq> [])"

text \<open>The truth value of an \<open>Optional[str]\<close>.\<close>

fun truthy_opt :: "string option \<Rightarrow> bool" where
  "truthy_opt None = False"
| "truthy_opt (Some s) = (s \<noteq> [])"

text \<open>
  A \<open>dict\<close> keeps its keys in insertion order, and that order decides which entry a loop
  with \<open>break\<close> finds first: a dictionary is a list of pairs with distinct keys.
  \<open>d[k] = v\<close> replaces the value in place when the key is there and appends otherwise.
\<close>

definition dict_get :: "('k \<times> 'v) list \<Rightarrow> 'k \<Rightarrow> 'v option" where
  "dict_get d k = map_of d k"

fun dict_set :: "('k \<times> 'v) list \<Rightarrow> 'k \<Rightarrow> 'v \<Rightarrow> ('k \<times> 'v) list" where
  "dict_set [] k v = [(k, v)]"
| "dict_set ((k', v') # d) k v =
     (if k' = k then (k, v) # d else (k', v') # dict_set d k v)"

definition dict_pop :: "('k \<times> 'v) list \<Rightarrow> 'k \<Rightarrow> ('k \<times> 'v) list" where
  "dict_pop d k = filter (\<lambda>kv. fst kv \<noteq> k) d"

definition dict_keys :: "('k \<times> 'v) list \<Rightarrow> 'k list" where
  "dict_keys d = map fst d"

definition dict_values :: "('k \<times> 'v) list \<Rightarrow> 'v list" where
  "dict_values d = map snd d"

subsection \<open>Strings\<close>

text \<open>\<open>str.lower()\<close> on code points below 256: A to Z, and the Latin-1 capitals.\<close>

definition lower_char :: "char \<Rightarrow> char" where
  "lower_char c =
     (let n = of_char c :: nat in
      if (65 \<le> n \<and> n \<le> 90) \<or> (192 \<le> n \<and> n \<le> 222 \<and> n \<noteq> 215)
      then char_of (n + 32) else c)"

definition lower :: "string \<Rightarrow> string" where
  "lower s = map lower_char s"

text \<open>\<open>s.replace(" ", "_")\<close>: every occurrence of the one-character pattern.\<close>

definition replace_char :: "char \<Rightarrow> char \<Rightarrow> string \<Rightarrow> string" where
  "replace_char a b s = map (\<lambda>c. if c = a then b else c) s"

text \<open>\<open>s.split(sep)\<close> with a one-character separator: empty pieces are kept.\<close>

fun split_on :: "char \<Rightarrow> string \<Rightarrow> string list" where
  "split_on c [] = [[]]"
| "split_on c (x # xs) =
     (if x = c then [] # split_on c xs
      else (case split_on c xs of
              [] \<Rightarrow> [[x]]
            | w # ws \<Rightarrow> (x # w) # ws))"

text \<open>\<open>sep.join(parts)\<close> with a one-character separator.\<close>

fun join_with :: "char \<Rightarrow> string list \<Rightarrow> string" where
  "join_with c [] = []"
| "join_with c [w] = w"
| "join_with c (w # ws) = w @ c # join_with c ws"

text \<open>\<open>str.isspace()\<close> on code points below 256.\<close>

definition is_space :: "char \<Rightarrow> bool" where
  "is_space c =
     (let n = of_char c :: nat in
      (9 \<le> n \<and> n \<le> 13) \<or> (28 \<le> n \<and> n \<le> 32) \<or> n = 133 \<or> n = 160)"

text \<open>\<open>s.split()\<close>: the maximal runs of non-space characters.\<close>

definition split_ws :: "string \<Rightarrow> string list" where
  "split_ws s = filter (\<lambda>w. w \<noteq> []) (split_on CHR '' '' (map (\<lambda>c. if is_space c then CHR '' '' else c) s))"

text \<open>Decimal digits, zero-padded to a fixed width, as \<open>strftime\<close> prints them.\<close>

definition digit :: "nat \<Rightarrow> char" where
  "digit n = ''0123456789'' ! (n mod 10)"

definition pad2 :: "nat \<Rightarrow> string" where
  "pad2 n = [digit (n div 10), digit n]"

definition pad4 :: "nat \<Rightarrow> string" where
  "pad4 n = [digit (n div 1000), digit (n div 100), digit (n div 10), digit n]"

subsection \<open>Paths\<close>

text \<open>
  \<open>pathlib.Path\<close> on a POSIX system. A path object is represented by its string form
  \<open>str(Path(s))\<close>: the root (\<open>/\<close>, or \<open>//\<close> for exactly two leading slashes), then the
  components separated by single slashes, empty components and \<open>.\<close> dropped; the empty
  path prints as \<open>.\<close>.
\<close>

definition path_root :: "string \<Rightarrow> string" where
  "path_root s =
     (case s of
        a # b # c # _ \<Rightarrow>
          (if a = CHR ''/'' then (if b = CHR ''/'' \<and> c \<noteq> CHR ''/'' then ''//'' else ''/'') else [])
      | [a, b] \<Rightarrow>
          (if a = CHR ''/'' then (if b = CHR ''/'' then ''//'' else ''/'') else [])
      | [a] \<Rightarrow> (if a = CHR ''/'' then ''/'' else [])
      | [] \<Rightarrow> [])"

definition path_parts :: "string \<Rightarrow> string list" where
  "path_parts s = filter (\<lambda>w. w \<noteq> [] \<and> w \<noteq> ''.'') (split_on CHR ''/'' s)"

definition Path :: "string \<Rightarrow> string" where
  "Path s =
     (if path_root s = [] \<and> path_parts s = [] then ''.''
      else path_root s @ join_with CHR ''/'' (path_parts s))"

text \<open>\<open>p / name\<close>: an absolute right operand replaces the left one.\<close>

definition path_div :: "string \<Rightarrow> string \<Rightarrow> string" where
  "path_div p name =
     (case name of
        c # _ \<Rightarrow> (if c = CHR ''/'' then Path name else Path (p @ ''/'' @ name))
      | [] \<Rightarrow> Path (p @ ''/'' @ name))"

text \<open>\<open>os.path.join(a, b)\<close> on a POSIX system.\<close>

definition os_path_join :: "string \<Rightarrow> string \<Rightarrow> string" where
  "os_path_join a b =
     (case b of
        c # _ \<Rightarrow>
          (if c = CHR ''/'' then b
           else if a = [] \<or> last a = CHR ''/'' then a @ b
           else a @ ''/'' @ b)
      | [] \<Rightarrow> (if a = [] \<or> last a = CHR ''/'' then a else a @ ''/''))"

text \<open>Components as \<open>Path\<close> keeps them: not empty, not \<open>.\<close>, free of slashes.\<close>

definition normal_parts :: "string list \<Rightarrow> bool" where
  "normal_parts ps = (\<forall>w\<in>set ps. w \<noteq> [] \<and> w \<noteq> ''.'' \<and> CHR ''/'' \<notin> set w)"

section \<open>Transcripts and recordings (app/services/transcript\_service.py)\<close>

subsection \<open>Webhook payloads (app/models.py)\<close>

record WordItem =
  w_start :: real
  w_end :: real
  w_word :: string

record TranscriptSegment =
  speaker :: string
  words :: "WordItem list"

record MeetingCompletedData =
  mc_bot_id :: string
  mp4 :: string
  speakers :: "string list"
  transcript :: "TranscriptSegment list"

record MeetingFailedData =
  mf_bot_id :: string
  mf_error :: string

record MeetingStatusData =
  ms_bot_id :: string
  ms_status :: "(string \<times> pyval) list"

subsection \<open>Clock\<close>

text \<open>A \<open>datetime\<close> as \<open>datetime.now()\<close> returns it (year 1 to 9999).\<close>

record datetime =
  year :: nat
  month :: nat
  day :: nat
  hour :: nat
  minute :: nat
  second :: nat
  microsecond :: nat

text \<open>\<open>strftime('%Y%m%d_%H%M%S')\<close>.\<close>

definition strftime :: "datetime \<Rightarrow> string" where
  "strftime t =
     pad4 (year t) @ pad2 (month t) @ pad2 (day t) @ ''_''
       @ pad2 (hour t) @ pad2 (minute t) @ pad2 (second t)"

subsection \<open>The service and its storage\<close>

record TranscriptMetadata =
  bot_id :: string
  meeting_id :: string
  timestamp :: datetime
  duration :: "real option"
  num_speakers :: nat
  recording_path :: "string option"
  transcript_path :: string

datatype content =
    TranscriptJson MeetingCompletedData
  | MetadataJson "(string \<times> TranscriptMetadata) list"
  | Mp4 string

datatype level = INFO | WARNING | ERROR

text \<open>
  The service object and the part of the world it acts on:
  \<^item> \<open>metadata_cache\<close>: the dictionary \<open>self._metadata_cache\<close>;
  \<^item> \<open>files\<close>: the files on disk, by the string form of their path;
  \<^item> \<open>unwritable\<close>: the paths at which opening a file for writing raises;
  \<^item> \<open>tasks\<close>: the background downloads created with \<open>asyncio.create_task\<close>, each
    with the arguments of its \<open>_download_recording\<close> call;
  \<^item> \<open>log\<close>: the records sent to the logger.
\<close>

record service =
  metadata_cache :: "(string \<times> TranscriptMetadata) list"
  files :: "string \<rightharpoonup> content"
  unwritable :: "string set"
  tasks :: "(string \<times> string \<times> TranscriptMetadata) list"
  log :: "(level \<times> string) list"

definition TRANSCRIPT_DIR :: string where
  "TRANSCRIPT_DIR = Path ''data/transcripts''"

definition RECORDING_DIR :: string where
  "RECORDING_DIR = Path ''data/recordings''"

definition logged :: "level \<Rightarrow> string \<Rightarrow> service \<Rightarrow> service" where
  "logged l m s = s\<lparr>log := log s @ [(l, m)]\<rparr>"

text \<open>\<open>Path.exists()\<close>.\<close>

definition path_exists :: "service \<Rightarrow> string \<Rightarrow> bool" where
  "path_exists s p = (files s p \<noteq> None)"

text \<open>
  \<open>_save_metadata\<close>: rewrites \<open>metadata.json\<close> from the whole cache; an error is logged
  and reported as \<open>False\<close>.
\<close>

definition save_metadata :: "service \<Rightarrow> bool \<times> service" where
  "save_metadata s =
     (let metadata_file = path_div TRANSCRIPT_DIR ''metadata.json'' in
      if metadata_file \<in> unwritable s
      then (False, logged ERROR ''Error saving transcript metadata'' s)
      else (True, s\<lparr>files := (files s)(metadata_file \<mapsto> MetadataJson (metadata_cache s))\<rparr>))"

text \<open>
  The duration computed by \<open>save_meeting_transcript\<close>: from the first word of the first
  segment to the last word of the last segment, when both segments have words. Times are
  Python floats, modelled as real numbers (no rounding).
\<close>

definition calculate_duration :: "TranscriptSegment list \<Rightarrow> real option" where
  "calculate_duration tr =
     (if tr \<noteq> [] \<and> length tr > 0 then
        (let first_segment = hd tr; last_segment = last tr in
         if words first_segment \<noteq> [] \<and> words last_segment \<noteq> []
         then (let start_time = w_start (hd (words first_segment));
                   end_time = w_end (last (words last_segment))
               in Some (end_time - start_time))
         else None)
      else None)"

text \<open>
  \<open>save_meeting_transcript(bot_id, meeting_data)\<close>. \<open>now\<close> and \<open>now'\<close> are the values of the
  two \<open>datetime.now()\<close> calls. Any exception inside the \<open>try\<close> becomes an
  \<open>HTTPException\<close> with status 500.
\<close>

definition save_meeting_transcript ::
  "service \<Rightarrow> datetime \<Rightarrow> datetime \<Rightarrow> string \<Rightarrow> MeetingCompletedData \<Rightarrow> (error + string) \<times> service" where
  "save_meeting_transcript s now now' b meeting_data =
     (let mid = b @ ''_'' @ strftime now;
          tpath = path_div TRANSCRIPT_DIR (mid @ ''_transcript.json'')
      in if tpath \<in> unwritable s
         then (Inl (HTTPException 500), logged ERROR ''Error saving meeting transcript'' s)
         else
           (let s1 = s\<lparr>files := (files s)(tpath \<mapsto> TranscriptJson meeting_data)\<rparr>;
                metadata = \<lparr>bot_id = b, meeting_id = mid, timestamp = now',
                            duration = calculate_duration (transcript meeting_data),
                            num_speakers = length (speakers meeting_data),
                            recording_path = None, transcript_path = tpath\<rparr>;
                s2 = s1\<lparr>tasks := tasks s1 @ [(mid, mp4 meeting_data, metadata)]\<rparr>;
                s3 = s2\<lparr>metadata_cache := dict_set (metadata_cache s2) mid metadata\<rparr>
            in (Inr mid, snd (save_metadata s3))))"

text \<open>
  The answer of the media server to the download: a connection error, or a status code
  and the results of the successive \<open>read(1024 * 1024)\<close> calls (\<open>None\<close>: the read
  raises; after the last element the stream is at its end and a read returns nothing).
\<close>

datatype http_answer = ConnectionError | Response nat "string option list"

text \<open>
  The loop \<open>while True: chunk = read(...); if not chunk: break; write(chunk)\<close>: whether
  it ended without an exception, and what was written.
\<close>

fun write_chunks :: "string option list \<Rightarrow> string \<Rightarrow> bool \<times> string" where
  "write_chunks [] acc = (True, acc)"
| "write_chunks (None # cs) acc = (False, acc)"
| "write_chunks (Some c # cs) acc =
     (if c = [] then (True, acc) else write_chunks cs (acc @ c))"

text \<open>
  \<open>_download_recording(meeting_id, mp4_url, metadata)\<close>, the body of the background task.
  The metadata object is the one \<open>save_meeting_transcript\<close> built; nothing else writes
  to it, so the task holds its value.
\<close>

definition download_recording ::
  "service \<Rightarrow> string \<times> string \<times> TranscriptMetadata \<Rightarrow> http_answer \<Rightarrow> service" where
  "download_recording s task answer =
     (case task of (mid, mp4_url, metadata) \<Rightarrow>
        (let rpath = path_div RECORDING_DIR (mid @ ''.mp4'');
             s0 = logged INFO (''Downloading recording for meeting '' @ mid) s
         in case answer of
              ConnectionError \<Rightarrow>
                logged ERROR (''Error downloading recording for meeting '' @ mid) s0
            | Response code chunks \<Rightarrow>
                (if code = 200 then
                   (if rpath \<in> unwritable s0
                    then logged ERROR (''Error downloading recording for meeting '' @ mid) s0
                    else
                      (case write_chunks chunks [] of
                         (False, written) \<Rightarrow>
                           logged ERROR (''Error downloading recording for meeting '' @ mid)
                             (s0\<lparr>files := (files s0)(rpath \<mapsto> Mp4 written)\<rparr>)
                       | (True, written) \<Rightarrow>
                           (let s1 = s0\<lparr>files := (files s0)(rpath \<mapsto> Mp4 written)\<rparr>;
                                metadata' = metadata\<lparr>recording_path := Some rpath\<rparr>;
                                s2 = s1\<lparr>metadata_cache :=
                                          dict_set (metadata_cache s1) mid metadata'\<rparr>;
                                s3 = snd (save_metadata s2)
                            in logged INFO
                                 (''Successfully downloaded recording for meeting '' @ mid) s3)))
                 else logged ERROR ''Failed to download recording: HTTP'' s0)))"

text \<open>
  \<open>get_recording_path(meeting_id)\<close>. A metadata object is always true; a recording path
  is false when it is \<open>None\<close> or empty.
\<close>

definition get_recording_path :: "service \<Rightarrow> string \<Rightarrow> string option" where
  "get_recording_path s mid =
     (case dict_get (metadata_cache s) mid of
        None \<Rightarrow> None
      | Some metadata \<Rightarrow>
          (if \<not> truthy_opt (recording_path metadata) then None
           else (let rpath = Path (the (recording_path metadata)) in
                 if \<not> path_exists s rpath then None else Some rpath)))"

text \<open>\<open>list_transcripts()\<close>.\<close>

definition list_transcripts :: "service \<Rightarrow> TranscriptMetadata list" where
  "list_transcripts s = dict_values (metadata_cache s)"

section \<open>The webhook endpoint (app/routes.py)\<close>

text \<open>
  The \<open>data\<close> dictionary of a webhook event is represented by what pydantic makes of it:
  the result of each of the three model constructors (\<open>None\<close> when validation fails).
\<close>

record WebhookData =
  as_completed :: "MeetingCompletedData option"
  as_failed :: "MeetingFailedData option"
  as_status :: "MeetingStatusData option"

record MeetingWebhookEvent =
  event :: string
  data :: WebhookData

text \<open>
  What a route hands back: a \<open>JSONResponse\<close> with its status code, a plain dictionary
  (sent with status 200), or a \<open>JoinResponse\<close>.
\<close>

datatype response =
    JSONResponse "(string \<times> string) list" nat
  | Dict "(string \<times> string) list"
  | JoinResponse string

text \<open>
  \<open>meetingbaas_webhook(webhook_event)\<close>. Every exception inside the \<open>try\<close>, a failed
  validation included, is logged and raised again as an \<open>HTTPException\<close> with status 500.
\<close>

definition webhook_failure :: "service \<Rightarrow> (error + response) \<times> service" where
  "webhook_failure s = (Inl (HTTPException 500), logged ERROR ''Error processing webhook'' s)"

definition meetingbaas_webhook ::
  "service \<Rightarrow> datetime \<Rightarrow> datetime \<Rightarrow> MeetingWebhookEvent \<Rightarrow> (error + response) \<times> service" where
  "meetingbaas_webhook s now now' webhook_event =
     (let s0 = logged INFO (''Received MeetingBaas webhook event: '' @ event webhook_event) s in
      if event webhook_event = ''complete'' then
        (case as_completed (data webhook_event) of
           None \<Rightarrow> webhook_failure s0
         | Some meeting_data \<Rightarrow>
             (case save_meeting_transcript s0 now now' (mc_bot_id meeting_data) meeting_data of
                (Inl e, s1) \<Rightarrow> webhook_failure s1
              | (Inr mid, s1) \<Rightarrow>
                  (Inr (Dict [(''status'', ''success''),
                              (''message'', ''Meeting transcript saved''),
                              (''meeting_id'', mid)]),
                   logged INFO (''Meeting completed webhook processed. Meeting ID: '' @ mid) s1)))
      else if event webhook_event = ''failed'' then
        (case as_failed (data webhook_event) of
           None \<Rightarrow> webhook_failure s0
         | Some failed_data \<Rightarrow>
             (Inr (Dict [(''status'', ''error''),
                         (''message'', ''Meeting failed''),
                         (''error'', mf_error failed_data)]),
              logged ERROR (''Meeting failed: '' @ mf_error failed_data) s0))
      else if event webhook_event = ''bot.status_change'' then
        (case as_status (data webhook_event) of
           None \<Rightarrow> webhook_failure s0
         | Some status_data \<Rightarrow>
             (Inr (Dict [(''status'', ''success''),
                         (''message'', ''Bot status change recorded'')]),
              logged INFO ''Bot status changed'' s0))
      else
        (Inr (Dict [(''status'', ''error''),
                    (''message'', ''Unknown webhook event: '' @ event webhook_event)]),
         logged WARNING (''Unknown webhook event: '' @ event webhook_event) s0))"

subsection \<open>Notions used to state the properties\<close>

text \<open>The service right after \<open>__init__\<close> on empty data directories.\<close>

definition init_service :: service where
  "init_service =
     \<lparr>metadata_cache = [], files = Map.empty, unwritable = {}, tasks = [], log = []\<rparr>"

text \<open>
  The duration as the specification words it: from the start of the first word to the end
  of the last word across all segments, unset when there is no word at all.
\<close>

definition spec_duration :: "TranscriptSegment list \<Rightarrow> real option" where
  "spec_duration tr =
     (let ws = concat (map words tr) in
      if ws = [] then None else Some (w_end (last ws) - w_start (hd ws)))"

text \<open>The duration stored in the index for a meeting id.\<close>

definition stored_duration :: "service \<Rightarrow> string \<Rightarrow> real option option" where
  "stored_duration s mid = map_option duration (dict_get (metadata_cache s) mid)"

text \<open>
  The reads of a response body before the end of the stream: those before the first read
  that returns nothing.
\<close>

definition reads_before_end :: "string option list \<Rightarrow> string option list" where
  "reads_before_end chunks = takeWhile (\<lambda>c. c \<noteq> Some []) chunks"

text \<open>
  A download that completes: the server answers with status 200, the recording file can
  be opened for writing, and no read raises before the end of the stream.
\<close>

definition download_completes :: "service \<Rightarrow> string \<Rightarrow> http_answer \<Rightarrow> bool" where
  "download_completes s mid answer =
     (case answer of
        ConnectionError \<Rightarrow> False
      | Response code chunks \<Rightarrow>
          code = 200 \<and> path_div RECORDING_DIR (mid @ ''.mp4'') \<notin> unwritable s
          \<and> None \<notin> set (reads_before_end chunks))"

text \<open>The \<open>status\<close> field of a response body.\<close>

fun response_status :: "response \<Rightarrow> string option" where
  "response_status (JSONResponse body code) = dict_get body ''status''"
| "response_status (Dict body) = dict_get body ''status''"
| "response_status (JoinResponse b) = None"

section \<open>Personas (config/persona\_utils.py)\<close>

text \<open>
  The persona table maps a folder name to a dictionary object, and \<open>get_persona\<close> works
  on a shallow copy of such an object. Whether the table is affected depends on which
  object is written to, so dictionary objects live in a store: \<open>objects\<close> is the list of
  all dictionary objects allocated so far, an object's address is its index, and the
  table holds addresses. Values inside a dictionary are never modified in place by the
  functions modelled here, so they are plain values.
\<close>

record persona_manager =
  personas_dir :: string
  personas :: "(string \<times> nat) list"
  objects :: "(string \<times> pyval) list list"

text \<open>Every address in the table refers to an allocated object.\<close>

definition table_allocated :: "persona_manager \<Rightarrow> bool" where
  "table_allocated pm = (\<forall>a \<in> set (dict_values (personas pm)). a < length (objects pm))"

text \<open>\<open>d.copy()\<close>: a new object with the same items; its address is returned.\<close>

definition dict_copy :: "persona_manager \<Rightarrow> nat \<Rightarrow> nat \<times> persona_manager" where
  "dict_copy pm a = (length (objects pm), pm\<lparr>objects := objects pm @ [objects pm ! a]\<rparr>)"

text \<open>\<open>d[k] = v\<close> on the object at address \<open>a\<close>.\<close>

definition setitem :: "persona_manager \<Rightarrow> nat \<Rightarrow> string \<Rightarrow> pyval \<Rightarrow> persona_manager" where
  "setitem pm a k v = pm\<lparr>objects := (objects pm)[a := dict_set (objects pm ! a) k v]\<rparr>"

text \<open>\<open>d.get(k)\<close> on the object at address \<open>a\<close>, \<open>None\<close> when the key is missing.\<close>

definition getitem_or_none :: "persona_manager \<Rightarrow> nat \<Rightarrow> string \<Rightarrow> pyval" where
  "getitem_or_none pm a k = (case dict_get (objects pm ! a) k of None \<Rightarrow> PNone | Some v \<Rightarrow> v)"

text \<open>
  The loop over \<open>self.personas.keys()\<close> that looks for the folder name sharing most words
  with the requested name: the state of the loop is \<open>(closest_match, max_overlap)\<close>, and
  a later key wins only with a strictly larger overlap.
\<close>

fun closest_match_loop :: "string list \<Rightarrow> string list \<Rightarrow> string option \<times> nat \<Rightarrow> string option \<times> nat" where
  "closest_match_loop ws [] acc = acc"
| "closest_match_loop ws (persona_key # ks) (closest_match, max_overlap) =
     (let persona_words = split_on CHR ''_'' persona_key;
          overlap = card (set ws \<inter> set persona_words)
      in if overlap > max_overlap
         then closest_match_loop ws ks (Some persona_key, overlap)
         else closest_match_loop ws ks (closest_match, max_overlap))"

text \<open>
  The first half of \<open>get_persona\<close>: choosing the stored record and copying it.
  \<open>rnd\<close> stands for the choice \<open>random.choice\<close> makes. The random branch reads
  \<open>persona['name']\<close> for its log line.
\<close>

definition select_persona ::
  "persona_manager \<Rightarrow> string option \<Rightarrow> nat \<Rightarrow> (error + nat) \<times> persona_manager" where
  "select_persona pm name rnd =
     (if truthy_opt name then
        (let folder_name = replace_char CHR '' '' CHR ''_'' (lower (the name)) in
         if folder_name \<in> set (dict_keys (personas pm))
         then (case dict_copy pm (the (dict_get (personas pm) folder_name)) of
                 (persona, pm1) \<Rightarrow> (Inr persona, pm1))
         else
           (case closest_match_loop (split_ws (lower (the name))) (dict_keys (personas pm)) (None, 0) of
              (closest_match, max_overlap) \<Rightarrow>
                if truthy_opt closest_match \<and> max_overlap \<ge> 1
                then (case dict_copy pm (the (dict_get (personas pm) (the closest_match))) of
                        (persona, pm1) \<Rightarrow> (Inr persona, pm1))
                else (Inl KeyError, pm)))
      else
        (if dict_values (personas pm) = [] then (Inl IndexError, pm)
         else
           (case dict_copy pm (dict_values (personas pm) ! (rnd mod length (dict_values (personas pm)))) of
              (persona, pm1) \<Rightarrow>
                if dict_get (objects pm1 ! persona) ''name'' = None then (Inl KeyError, pm1)
                else (Inr persona, pm1))))"

text \<open>
  \<open>get_persona(name)\<close>. \<open>INSTRUCTIONS\<close> is the constant
  \<open>PERSONA_INTERACTION_INSTRUCTIONS\<close> of \<open>config/prompts.py\<close>. The result is the address of
  the returned dictionary.
\<close>

definition get_persona ::
  "string \<Rightarrow> persona_manager \<Rightarrow> string option \<Rightarrow> nat \<Rightarrow> (error + nat) \<times> persona_manager" where
  "get_persona INSTRUCTIONS pm name rnd =
     (case select_persona pm name rnd of
        (Inl e, pm1) \<Rightarrow> (Inl e, pm1)
      | (Inr persona, pm1) \<Rightarrow>
          (let pm2 = (if \<not> truthy (getitem_or_none pm1 persona ''image'')
                      then setitem pm1 persona ''image'' (PStr []) else pm1)
           in case dict_get (objects pm2 ! persona) ''prompt'' of
                None \<Rightarrow> (Inl KeyError, pm2)
              | Some (PStr prompt) \<Rightarrow>
                  (let pm3 = setitem pm2 persona ''prompt'' (PStr (prompt @ INSTRUCTIONS)) in
                   if truthy_opt name then
                     (let persona_key = replace_char CHR '' '' CHR ''_'' (lower (the name)) in
                      (Inr persona,
                       setitem pm3 persona ''path'' (PStr (os_path_join (personas_dir pm3) persona_key))))
                   else
                     (case dict_get (objects pm3 ! persona) ''name'' of
                        None \<Rightarrow> (Inl KeyError, pm3)
                      | Some (PStr n) \<Rightarrow>
                          (let persona_key = replace_char CHR '' '' CHR ''_'' (lower n) in
                           (Inr persona,
                            setitem pm3 persona ''path''
                              (PStr (os_path_join (personas_dir pm3) persona_key))))
                      | Some _ \<Rightarrow> (Inl AttributeError, pm3)))
              | Some _ \<Rightarrow> (Inl TypeError, pm2)))"

text \<open>A sequence of \<open>get_persona\<close> calls, each with its name and its random choice.\<close>

fun get_persona_calls ::
  "string \<Rightarrow> persona_manager \<Rightarrow> (string option \<times> nat) list \<Rightarrow> persona_manager" where
  "get_persona_calls INSTRUCTIONS pm [] = pm"
| "get_persona_calls INSTRUCTIONS pm ((name, rnd) # rest) =
     get_persona_calls INSTRUCTIONS (snd (get_persona INSTRUCTIONS pm name rnd)) rest"

text \<open>
  What \<open>get_persona\<close> makes of a stored record \<open>d\<close>: the image defaulted to the empty
  string, the instructions appended to the prompt, the path added.
\<close>

definition returned_persona ::
  "string \<Rightarrow> (string \<times> pyval) list \<Rightarrow> string \<Rightarrow> string \<Rightarrow> (string \<times> pyval) list" where
  "returned_persona INSTRUCTIONS d prompt path =
     dict_set
       (dict_set
          (if truthy (case dict_get d ''image'' of None \<Rightarrow> PNone | Some v \<Rightarrow> v) then d
           else dict_set d ''image'' (PStr []))
          ''prompt'' (PStr (prompt @ INSTRUCTIONS)))
       ''path'' (PStr path)"

text \<open>A manager with two personas, as \<open>load_personas\<close> could have built it.\<close>

definition two_personas :: persona_manager where
  "two_personas =
     \<lparr>personas_dir = ''/app/config/personas'',
      personas = [(''baas_onboarder'', 0), (''interviewer'', 1)],
      objects =
        [[(''name'', PStr ''BaaS Onboarder''), (''prompt'', PStr ''You help.''),
          (''image'', PStr [])],
         [(''name'', PStr ''Interviewer''), (''prompt'', PStr ''You ask.''),
          (''image'', PStr ''http://i/x.png'')]]\<rparr>"

section \<open>Sessions, sockets and the leave flow (app/routes.py)\<close>

text \<open>
  The steps the route handlers take on the outside world and on the shared tables, in
  the order they are taken.
\<close>

record create_args =
  ca_meeting_url :: string
  ca_websocket_url :: string
  ca_bot_id :: string
  ca_persona_name :: pyval
  ca_api_key :: string
  ca_bot_image :: "string option"
  ca_entry_message :: "string option"
  ca_text_message :: "string option"
  ca_extra :: "(string \<times> pyval) list"
  ca_streaming_audio_frequency :: string
  ca_webhook_url :: "string option"

datatype step =
    LeaveApi string string
  | MarkClosing string
  | Disconnect string bool
  | Pause real
  | TerminateProcess nat
  | PopProcess string
  | PopDetails string
  | ReleaseNgrok string
  | SetSampleRate nat
  | UpdateNgrok string string
  | CreateApi create_args

text \<open>A WebSocket; \<open>close_raises\<close> tells whether closing it raises.\<close>

record websocket =
  ws_id :: nat
  close_raises :: bool

text \<open>
  The process-wide state of the server:
  \<^item> \<open>MEETING_DETAILS\<close>: client id to the tuple \<open>(meeting_url, persona_name,
    meetingbaas_bot_id, enable_tools, streaming_audio_frequency, entry_message,
    text_message)\<close>, in insertion order;
  \<^item> \<open>PIPECAT_PROCESSES\<close>: client id to the handle (process id) of its child process;
  \<^item> \<open>procs\<close>: the child processes by process id;
  \<^item> \<open>pipecat_connections\<close>, \<open>active_connections\<close>: the subprocess-facing and the
    client-facing sockets of the registry;
  \<^item> \<open>closing_clients\<close>: the clients marked as closing;
  \<^item> \<open>LOCAL_DEV_MODE\<close>: the flag of \<open>utils/ngrok.py\<close>;
  \<^item> \<open>trace\<close>: the steps taken so far.
\<close>

record server =
  MEETING_DETAILS :: "(string \<times> pyval list) list"
  PIPECAT_PROCESSES :: "string \<rightharpoonup> nat"
  procs :: "nat \<Rightarrow> process"
  pipecat_connections :: "string \<rightharpoonup> websocket"
  active_connections :: "string \<rightharpoonup> websocket"
  closing_clients :: "string set"
  LOCAL_DEV_MODE :: bool
  trace :: "step list"

definition did :: "step \<Rightarrow> server \<Rightarrow> server" where
  "did e s = s\<lparr>trace := trace s @ [e]\<rparr>"

text \<open>
  Modelled from the spec: \<open>message_router.mark_closing\<close> lives in \<open>core/router.py\<close>, which
  is not among the sources. The specification: it sets the closing flag of the session.
\<close>

definition mark_closing :: "server \<Rightarrow> string \<Rightarrow> server" where
  "mark_closing s client_id =
     did (MarkClosing client_id) (s\<lparr>closing_clients := insert client_id (closing_clients s)\<rparr>)"

text \<open>
  Modelled from the spec: \<open>registry.disconnect\<close> lives in \<open>core/connection.py\<close>, which is
  not among the sources. The specification: it closes the named socket's transport and
  removes it from the registry, it is a no-op when the socket is absent, and removal and
  closure are atomic; so a close that raises leaves the socket registered.
\<close>

definition disconnect :: "server \<Rightarrow> string \<Rightarrow> bool \<Rightarrow> error option \<times> server" where
  "disconnect s client_id is_pipecat =
     (let s1 = did (Disconnect client_id is_pipecat) s in
      if is_pipecat then
        (case pipecat_connections s1 client_id of
           None \<Rightarrow> (None, s1)
         | Some ws \<Rightarrow>
             if close_raises ws then (Some OSError, s1)
             else (None, s1\<lparr>pipecat_connections := (pipecat_connections s1)(client_id := None)\<rparr>))
      else
        (case active_connections s1 client_id of
           None \<Rightarrow> (None, s1)
         | Some ws \<Rightarrow>
             if close_raises ws then (Some OSError, s1)
             else (None, s1\<lparr>active_connections := (active_connections s1)(client_id := None)\<rparr>)))"

text \<open>
  The loop over \<open>MEETING_DETAILS.items()\<close> with its \<open>break\<close>: the first client whose
  tuple has at least three fields and the wanted bot id in the third.
\<close>

fun find_client :: "(string \<times> pyval list) list \<Rightarrow> string \<Rightarrow> string option" where
  "find_client [] meetingbaas_bot_id = None"
| "find_client ((cid, details) # rest) meetingbaas_bot_id =
     (if length details \<ge> 3 \<and> details ! 2 = PStr meetingbaas_bot_id then Some cid
      else find_client rest meetingbaas_bot_id)"

text \<open>
  Step 2 of \<open>leave_bot\<close>, for a client id that was found: mark closing, close the
  subprocess-facing socket, close the client-facing socket, sleep half a second. The
  flag is \<open>success\<close>.
\<close>

definition close_websockets :: "server \<Rightarrow> string \<Rightarrow> bool \<Rightarrow> bool \<times> server" where
  "close_websockets s client_id success =
     (let s1 = mark_closing s client_id;
          (success2, s2) =
            (if client_id \<in> dom (pipecat_connections s1) then
               (case disconnect s1 client_id True of
                  (None, s') \<Rightarrow> (success, s')
                | (Some e, s') \<Rightarrow> (False, s'))
             else (success, s1));
          (success3, s3) =
            (if client_id \<in> dom (active_connections s2) then
               (case disconnect s2 client_id False of
                  (None, s') \<Rightarrow> (success2, s')
                | (Some e, s') \<Rightarrow> (False, s'))
             else (success2, s2))
      in (success3, did (Pause (1 / 2)) s3))"

text \<open>
  Step 3 of \<open>leave_bot\<close>, for a client id with an entry in \<open>PIPECAT_PROCESSES\<close>: terminate
  the child when \<open>poll()\<close> says it is running, then drop the process entry, the meeting
  details and, in local development mode, the ngrok URL.
  A \<open>Popen\<close> handle is always true, so \<open>process and process.poll() is None\<close> is the
  poll alone. \<open>terminate_process_gracefully\<close> catches every exception itself, so the
  handler around the call never runs.
\<close>

definition terminate_pipecat :: "server \<Rightarrow> string \<Rightarrow> server" where
  "terminate_pipecat s client_id =
     (let pid = the (PIPECAT_PROCESSES s client_id);
          s1 = (case poll (procs s pid) of
                  (True, p1) \<Rightarrow> s\<lparr>procs := (procs s)(pid := p1)\<rparr>
                | (False, p1) \<Rightarrow>
                    (did (TerminateProcess pid) s)
                      \<lparr>procs := (procs s)(pid := snd (terminate_process_gracefully p1 (Finite 3)))\<rparr>);
          s2 = did (PopProcess client_id)
                 (s1\<lparr>PIPECAT_PROCESSES := (PIPECAT_PROCESSES s1)(client_id := None)\<rparr>);
          s3 = (if client_id \<in> set (dict_keys (MEETING_DETAILS s2))
                then did (PopDetails client_id)
                       (s2\<lparr>MEETING_DETAILS := dict_pop (MEETING_DETAILS s2) client_id\<rparr>)
                else s2)
      in if LOCAL_DEV_MODE s3 \<and> client_id \<noteq> [] then did (ReleaseNgrok client_id) s3 else s3)"

text \<open>\<open>bot_id or request.bot_id\<close>.\<close>

definition str_or :: "string \<Rightarrow> string option \<Rightarrow> string option" where
  "str_or a b = (if a \<noteq> [] then Some a else b)"

text \<open>
  \<open>leave_bot(bot_id, request, client_request)\<close>, with \<open>path_bot_id\<close> for the path
  parameter \<open>bot_id\<close> and \<open>request_bot_id\<close> for \<open>request.bot_id\<close>. \<open>api_result\<close> is what
  \<open>leave_meeting_bot\<close> (of \<open>scripts/meetingbaas_api.py\<close>) returns. The handler runs
  without interleaving with other handlers; its log lines are left out.
\<close>

definition leave_bot ::
  "server \<Rightarrow> string \<Rightarrow> string option \<Rightarrow> string \<Rightarrow> bool \<Rightarrow> response \<times> server" where
  "leave_bot s path_bot_id request_bot_id api_key api_result =
     (if path_bot_id = [] \<and> \<not> truthy_opt request_bot_id then
        (JSONResponse [(''message'', ''Bot ID is required''), (''status'', ''error'')] 400, s)
      else
        (let meetingbaas_bot_id = the (str_or path_bot_id request_bot_id);
             client_id = find_client (MEETING_DETAILS s) meetingbaas_bot_id;
             (success1, s1) =
               (if meetingbaas_bot_id \<noteq> []
                then (api_result, did (LeaveApi meetingbaas_bot_id api_key) s)
                else (True, s));
             (success2, s2) =
               (if truthy_opt client_id then close_websockets s1 (the client_id) success1
                else (success1, s1));
             s3 = (if truthy_opt client_id \<and> the client_id \<in> dom (PIPECAT_PROCESSES s2)
                   then terminate_pipecat s2 (the client_id) else s2)
         in (Dict [(''message'', ''Bot removal request processed''),
                   (''status'', if success2 then ''success'' else ''partial''),
                   (''bot_id'', meetingbaas_bot_id)],
             s3)))"

subsection \<open>Notions used to state the properties\<close>

text \<open>\<open>resolve_by_remote_id\<close>, the lookup of the session that holds a remote bot id.\<close>

definition resolve_by_remote_id :: "server \<Rightarrow> string \<Rightarrow> string option" where
  "resolve_by_remote_id s remote_bot_id = find_client (MEETING_DETAILS s) remote_bot_id"



text \<open>Some session other than \<open>client_id\<close> holds the remote bot id.\<close>

definition held_elsewhere :: "server \<Rightarrow> string \<Rightarrow> string \<Rightarrow> bool" where
  "held_elsewhere s client_id remote_bot_id =
     list_ex (\<lambda>(cid, details). cid \<noteq> client_id \<and> length details \<ge> 3
                \<and> details ! 2 = PStr remote_bot_id) (MEETING_DETAILS s)"

text \<open>
  A server with one session \<open>c1\<close> that holds the remote bot id \<open>b1\<close>, given its process
  table, its two socket tables and the state of every child process.
\<close>

definition one_session ::
  "(string \<rightharpoonup> nat) \<Rightarrow> (string \<rightharpoonup> websocket) \<Rightarrow> (string \<rightharpoonup> websocket) \<Rightarrow> process \<Rightarrow> server" where
  "one_session processes pipecat clients child =
     \<lparr>MEETING_DETAILS =
        [(''c1'', [PStr ''https://meet.example/abc'', PStr ''p'', PStr ''b1'', PBool True,
                  PStr ''16khz'', PNone, PNone])],
      PIPECAT_PROCESSES = processes, procs = (\<lambda>pid. child),
      pipecat_connections = pipecat, active_connections = clients,
      closing_clients = {}, LOCAL_DEV_MODE = False, trace = []\<rparr>"

section \<open>Creating a session (app/routes.py)\<close>

record BotRequest =
  meeting_url :: string
  bot_name :: string
  req_personas :: "string list option"
  bot_image :: "string option"
  entry_message :: "string option"
  text_message :: "string option"
  context_info :: "string option"
  extra :: "(string \<times> pyval) list option"
  enable_tools :: bool
  webhook_url :: "string option"

text \<open>
  What \<open>join_meeting\<close> takes from its surroundings:
  \<^item> \<open>api_key\<close>: \<open>client_request.state.api_key\<close>;
  \<^item> \<open>env_WEBHOOK_URL\<close>: the environment variable \<open>WEBHOOK_URL\<close>;
  \<^item> \<open>websocket_url\<close>, \<open>temp_client_id\<close>: the result of \<open>determine_websocket_url\<close>;
  \<^item> \<open>uuid4\<close>: the fresh client id;
  \<^item> \<open>choice_of_key\<close>, \<open>choice_of_persona\<close>: the choices of the two \<open>random.choice\<close>
    calls (in \<open>join_meeting\<close> and in \<open>get_persona\<close>);
  \<^item> \<open>created_bot_id\<close>: what \<open>create_meeting_bot\<close> returns.
\<close>

record join_env =
  api_key :: string
  env_WEBHOOK_URL :: "string option"
  websocket_url :: string
  temp_client_id :: "string option"
  uuid4 :: string
  choice_of_key :: nat
  choice_of_persona :: nat
  created_bot_id :: "string option"

text \<open>
  \<open>str(x)\<close>. Persona images are strings or \<open>None\<close>; the printed form of numbers, lists
  and dictionaries is not modelled.
\<close>

fun py_str :: "pyval \<Rightarrow> string" where
  "py_str (PStr s) = s"
| "py_str PNone = ''None''"
| "py_str (PBool b) = (if b then ''True'' else ''False'')"
| "py_str (PNum x) = ''<number>''"
| "py_str (PList xs) = ''<list>''"
| "py_str (PDict d) = ''<dict>''"

fun opt_val :: "string option \<Rightarrow> pyval" where
  "opt_val None = PNone"
| "opt_val (Some s) = PStr s"

text \<open>The choice of the persona name in \<open>join_meeting\<close>.\<close>

definition choose_persona_name :: "persona_manager \<Rightarrow> BotRequest \<Rightarrow> nat \<Rightarrow> string" where
  "choose_persona_name pm request rnd =
     (case req_personas request of
        Some (first # _) \<Rightarrow> first
      | _ \<Rightarrow>
          (let persona_name = bot_name request in
           if persona_name \<in> set (dict_keys (personas pm)) then persona_name
           else (let available_personas = dict_keys (personas pm) in
                 if available_personas \<noteq> []
                 then available_personas ! (rnd mod length available_personas)
                 else ''baas_onboarder'')))"

text \<open>
  \<open>join_meeting(request, client_request)\<close>. An exception of \<open>get_persona\<close> is not
  caught by the handler.
\<close>

definition join_meeting ::
  "string \<Rightarrow> server \<Rightarrow> persona_manager \<Rightarrow> BotRequest \<Rightarrow> join_env
     \<Rightarrow> (error + response) \<times> server \<times> persona_manager" where
  "join_meeting INSTRUCTIONS s pm request env =
     (if meeting_url request = [] then
        (Inr (JSONResponse [(''message'', ''Meeting URL is required''), (''status'', ''error'')] 400),
         s, pm)
      else
        (let webhook = (if truthy_opt (webhook_url request) then webhook_url request
                        else env_WEBHOOK_URL env);
             streaming_audio_frequency = ''16khz'';
             s1 = did (SetSampleRate 16000) s;
             bot_client_id = uuid4 env;
             s2 = (if LOCAL_DEV_MODE s1 \<and> truthy_opt (temp_client_id env)
                   then did (UpdateNgrok (the (temp_client_id env)) bot_client_id) s1 else s1);
             persona_name = choose_persona_name pm request (choice_of_key env)
         in case get_persona INSTRUCTIONS pm (Some persona_name) (choice_of_persona env) of
              (Inl e, pm1) \<Rightarrow> (Inl e, s2, pm1)
            | (Inr persona, pm1) \<Rightarrow>
                (let s3 = s2\<lparr>MEETING_DETAILS := dict_set (MEETING_DETAILS s2) bot_client_id
                            [PStr (meeting_url request), PStr persona_name, PNone,
                             PBool (enable_tools request), PStr streaming_audio_frequency,
                             opt_val (entry_message request), opt_val (text_message request)]\<rparr>;
                     image = getitem_or_none pm1 persona ''image'';
                     bot_image_str =
                       (if \<not> truthy_opt (bot_image request) \<and> truthy image
                        then Some (py_str image) else bot_image request);
                     extra_data = (case extra request of
                                     None \<Rightarrow> []
                                   | Some e \<Rightarrow> e);
                     extra_data' = (if truthy_opt (context_info request)
                                    then dict_set extra_data ''context_info''
                                           (PStr (the (context_info request)))
                                    else extra_data);
                     s4 = did (CreateApi
                            \<lparr>ca_meeting_url = meeting_url request,
                             ca_websocket_url = websocket_url env,
                             ca_bot_id = bot_client_id,
                             ca_persona_name =
                               (case dict_get (objects pm1 ! persona) ''name'' of
                                  None \<Rightarrow> PStr persona_name
                                | Some v \<Rightarrow> v),
                             ca_api_key = api_key env,
                             ca_bot_image = bot_image_str,
                             ca_entry_message = entry_message request,
                             ca_text_message = text_message request,
                             ca_extra = extra_data',
                             ca_streaming_audio_frequency = streaming_audio_frequency,
                             ca_webhook_url = webhook\<rparr>) s3
                 in if truthy_opt (created_bot_id env) then
                      (Inr (JoinResponse (the (created_bot_id env))),
                       s4\<lparr>MEETING_DETAILS := dict_set (MEETING_DETAILS s4) bot_client_id
                            [PStr (meeting_url request), PStr persona_name,
                             PStr (the (created_bot_id env)),
                             PBool (enable_tools request), PStr streaming_audio_frequency,
                             opt_val (entry_message request), opt_val (text_message request)]\<rparr>,
                       pm1)
                    else
                      (Inr (JSONResponse
                              [(''message'', ''Failed to create bot through MeetingBaas API''),
                               (''status'', ''error'')] 500),
                       s4, pm1))))"

text \<open>A server without sessions, processes or sockets.\<close>

definition idle_server :: server where
  "idle_server =
     \<lparr>MEETING_DETAILS = [], PIPECAT_PROCESSES = Map.empty,
      procs = (\<lambda>pid. \<lparr>exited = True, sigterm_ticks = None, countdown = None,
                       signal_error = False, kill_effective = True, calls = []\<rparr>),
      pipecat_connections = Map.empty, active_connections = Map.empty,
      closing_clients = {}, LOCAL_DEV_MODE = False, trace = []\<rparr>"

section \<open>Facts about dictionaries\<close>

lemma dict_get_dict_set: "dict_get (dict_set d k v) k' = (if k' = k then Some v else dict_get d k')"
  by (induction d) (auto simp: dict_get_def)

section \<open>Termination of a child process\<close>

lemma wait_for_exit_alive:
  "\<not> exited p \<Longrightarrow> (case countdown p of None \<Rightarrow> True | Some k \<Rightarrow> n \<le> k \<and> 0 < k) \<Longrightarrow>
   wait_for_exit n p =
     (False, p\<lparr>calls := calls p @ concat (replicate n [Poll, Sleep100]),
               countdown := map_option (\<lambda>k. k - n) (countdown p),
               exited := (countdown p = Some n)\<rparr>)"
proof (induction n arbitrary: p)
  case 0
  then show ?case by (cases "countdown p") auto
next
  case (Suc n)
  let ?q = "sleep (called Poll p)"
  have step: "wait_for_exit (Suc n) p = wait_for_exit n ?q"
    using Suc.prems(1) by (simp add: poll_def)
  show ?case
  proof (cases "countdown p")
    case None
    then have q: "?q = p\<lparr>calls := calls p @ [Poll, Sleep100]\<rparr>"
      by (simp add: sleep_def called_def)
    have "\<not> exited ?q" "countdown ?q = None"
      using Suc.prems(1) None by (simp_all add: q)
    then show ?thesis
      using Suc.IH [of ?q] None unfolding step by (simp add: q)
  next
    case (Some k)
    then obtain j where k: "k = Suc j" and j: "n \<le> j"
      using Suc.prems(2) by (cases k) auto
    have q: "?q = p\<lparr>calls := calls p @ [Poll, Sleep100], countdown := Some j,
                    exited := (j = 0)\<rparr>"
      using Some k Suc.prems(1) by (simp add: sleep_def called_def)
    show ?thesis
    proof (cases "j = 0")
      case True
      then have "n = 0" using j by simp
      then show ?thesis
        using Some k True unfolding step by (simp add: q)
    next
      case False
      then have "\<not> exited ?q" "case countdown ?q of None \<Rightarrow> True | Some k \<Rightarrow> n \<le> k \<and> 0 < k"
        using j by (simp_all add: q)
      then show ?thesis
        using Suc.IH [of ?q] Some k unfolding step by (simp add: q)
    qed
  qed
qed

lemma round_half_even_le: "of_int (round_half_even y) \<le> y + 1 / 2"
  unfolding round_half_even_def Let_def by (auto split: if_splits) linarith+

lemma round_half_even_nonneg: "0 \<le> y \<Longrightarrow> 0 \<le> round_half_even y"
  unfolding round_half_even_def Let_def by (auto split: if_splits)

lemma round_half_even_int: "round_half_even (of_int m) = m"
  by (simp add: round_half_even_def)

lemma ulp_exponent_le:
  assumes "0 < x" and "x < 2 ^ 53"
  shows "ulp_exponent x \<le> 0"
proof -
  have "Transcendental.log 2 x < 53"
    using assms by (simp add: log_less_iff powr_realpow)
  then have "\<lfloor>Transcendental.log 2 x\<rfloor> \<le> 52" by linarith
  then show ?thesis using assms(1) by (simp add: ulp_exponent_def)
qed

lemma round_double_le:
  assumes "0 \<le> x" and "x < 2 ^ 53"
  shows "0 \<le> round_double x \<and> round_double x \<le> x + 1 / 2"
proof (cases "x = 0")
  case True
  then show ?thesis by (simp add: round_double_def)
next
  case False
  then have pos: "0 < x" using assms(1) by simp
  let ?u = "2 powr of_int (ulp_exponent x) :: real"
  have u0: "0 < ?u" by simp
  have u1: "?u \<le> 1"
    using ulp_exponent_le [OF pos assms(2)] powr_mono [of "of_int (ulp_exponent x)" 0 2]
    by simp
  have r: "of_int (round_half_even (x / ?u)) \<le> x / ?u + 1 / 2"
    by (rule round_half_even_le)
  have "of_int (round_half_even (x / ?u)) * ?u \<le> (x / ?u + 1 / 2) * ?u"
    using r u0 by (simp add: mult_right_mono)
  also have "\<dots> = x + ?u / 2"
    using u0 by (simp add: field_simps)
  also have "\<dots> \<le> x + 1 / 2" using u1 by simp
  finally have up: "round_double x \<le> x + 1 / 2"
    using False by (simp add: round_double_def)
  have "0 \<le> x / ?u" using pos u0 by simp
  then have "0 \<le> round_half_even (x / ?u)" by (rule round_half_even_nonneg)
  then have "0 \<le> round_double x"
    using False u0 by (simp add: round_double_def)
  then show ?thesis using up by simp
qed

lemma poll_rounds_bound:
  assumes "0 \<le> t" and "t * 10 < 2 ^ 53"
  shows "int (poll_rounds t) \<le> \<lfloor>t * 10\<rfloor> + 1"
    and "py_int (float_times (Finite t) 10) = Inr (int (poll_rounds t))"
proof -
  have x0: "0 \<le> t * 10" using assms(1) by simp
  note b = round_double_le [OF x0 assms(2)]
  have "\<lfloor>round_double (t * 10)\<rfloor> \<le> \<lfloor>t * 10 + 1 / 2\<rfloor>"
    using b by (simp add: floor_mono)
  also have "\<dots> \<le> \<lfloor>t * 10\<rfloor> + 1" by linarith
  finally have fl: "\<lfloor>round_double (t * 10)\<rfloor> \<le> \<lfloor>t * 10\<rfloor> + 1" .
  have nn: "0 \<le> \<lfloor>round_double (t * 10)\<rfloor>" using b by simp
  show "int (poll_rounds t) \<le> \<lfloor>t * 10\<rfloor> + 1"
    using fl nn b by (simp add: poll_rounds_def range_len_def trunc_def)
  have "round_double (t * 10) < 2 ^ 1024"
  proof -
    have "round_double (t * 10) < (2::real) ^ 53 + 1 / 2" using b assms(2) by simp
    also have "\<dots> \<le> 2 ^ 1024" by simp
    finally show ?thesis .
  qed
  then show "py_int (float_times (Finite t) 10) = Inr (int (poll_rounds t))"
    using b nn by (simp add: py_int_def float_times_def poll_rounds_def range_len_def trunc_def Let_def)
qed


lemma round_double_binade:
  assumes "2 ^ k \<le> x" and "x < 2 ^ Suc k" and "k \<le> 52"
  shows "round_double x = of_int (round_half_even (x * 2 ^ (52 - k))) / 2 ^ (52 - k)"
proof -
  have pos: "0 < x"
    using assms(1) by (meson less_le_trans zero_less_numeral zero_less_power)
  have "2 powr of_int (int k) \<le> x" "x < 2 powr (of_int (int k) + 1)"
    using assms(1,2) by (simp_all add: powr_realpow powr_add)
  then have "\<lfloor>Transcendental.log 2 x\<rfloor> = int k"
    using pos by (simp add: floor_log_eq_powr_iff)
  then have e: "ulp_exponent x = - int (52 - k)"
    using pos assms(3) by (simp add: ulp_exponent_def)
  have u: "2 powr - real (52 - k) = (1 / 2 ^ (52 - k) :: real)"
    by (simp add: powr_minus powr_realpow divide_inverse)
  have "round_double x = of_int (round_half_even (x / 2 powr - real (52 - k))) * 2 powr - real (52 - k)"
    using pos by (simp add: round_double_def e)
  then show ?thesis
    unfolding u by simp
qed

lemma poll_rounds_double_0_3: "poll_rounds (5404319552844595 / 2 ^ 54) = 3"
proof -
  have "round_double (5404319552844595 / 2 ^ 54 * 10) = 3"
    by (subst round_double_binade [where k = 1]) (simp_all add: round_half_even_def)
  then show ?thesis by (simp add: poll_rounds_def range_len_def trunc_def)
qed

lemma poll_rounds_half: "poll_rounds (1 / 2) = 5"
proof -
  have "round_double (1 / 2 * 10) = 5"
    by (subst round_double_binade [where k = 2]) (simp_all add: round_half_even_def)
  then show ?thesis by (simp add: poll_rounds_def range_len_def trunc_def)
qed


lemma round_half_even_ge_floor: "\<lfloor>y\<rfloor> \<le> round_half_even y"
  by (simp add: round_half_even_def Let_def)

lemma round_double_ge_floor:
  assumes "0 \<le> x" and "x < 2 ^ 53"
  shows "of_int \<lfloor>x\<rfloor> \<le> round_double x"
proof (cases "x = 0")
  case True
  then show ?thesis by (simp add: round_double_def)
next
  case False
  then have pos: "0 < x" using assms(1) by simp
  define n where "n = nat (- ulp_exponent x)"
  have e: "ulp_exponent x = - int n"
    using ulp_exponent_le [OF pos assms(2)] by (simp add: n_def)
  have u: "2 powr - real n = (1 / 2 ^ n :: real)"
    by (simp add: powr_minus powr_realpow divide_inverse)
  have rd: "round_double x = of_int (round_half_even (x * 2 ^ n)) / 2 ^ n"
  proof -
    have "round_double x = of_int (round_half_even (x / 2 powr - real n)) * 2 powr - real n"
      using pos by (simp add: round_double_def e)
    then show ?thesis unfolding u by simp
  qed
  have "of_int (\<lfloor>x\<rfloor> * 2 ^ n) \<le> x * 2 ^ n"
    by (simp add: mult_right_mono)
  then have "\<lfloor>x\<rfloor> * 2 ^ n \<le> \<lfloor>x * 2 ^ n\<rfloor>"
    by (simp add: le_floor_iff)
  also have "\<dots> \<le> round_half_even (x * 2 ^ n)"
    by (rule round_half_even_ge_floor)
  finally have "of_int \<lfloor>x\<rfloor> * 2 ^ n \<le> (of_int (round_half_even (x * 2 ^ n)) :: real)"
    by (metis of_int_le_iff of_int_mult of_int_numeral of_int_power)
  then show ?thesis
    unfolding rd by (simp add: pos_le_divide_eq)
qed

lemma poll_rounds_lower:
  assumes "0 \<le> t" and "t * 10 < 2 ^ 53"
  shows "\<lfloor>t * 10\<rfloor> \<le> int (poll_rounds t)"
proof -
  have x0: "0 \<le> t * 10" using assms(1) by simp
  have "of_int \<lfloor>t * 10\<rfloor> \<le> round_double (t * 10)"
    by (rule round_double_ge_floor [OF x0 assms(2)])
  then have "\<lfloor>t * 10\<rfloor> \<le> \<lfloor>round_double (t * 10)\<rfloor>"
    by (simp add: le_floor_iff)
  moreover have "0 \<le> round_double (t * 10)"
    using round_double_le [OF x0 assms(2)] by simp
  ultimately show ?thesis
    by (simp add: poll_rounds_def range_len_def trunc_def)
qed

lemma force_kill_calls:
  assumes "\<not> signal_error p"
  shows "fst (force_kill p) = False"
    and "calls (snd (force_kill p)) =
      calls p @ [SendKill, Wait1s] @ (if exited p \<or> kill_effective p then [] else [SendKill])"
  using assms
  by (auto simp: force_kill_def kill_def wait_def last_kill_def called_def Let_def)

lemma terminate_forced_calls:
  assumes "\<not> exited p" and "\<not> signal_error p"
    and "py_int (float_times timeout 10) = Inr (int n)"
    and "case sigterm_ticks p of None \<Rightarrow> True | Some k \<Rightarrow> n \<le> k"
  shows "fst (terminate_process_gracefully p timeout) = False"
    and "calls (snd (terminate_process_gracefully p timeout)) =
      calls p @ [Poll, SendTerminate] @ concat (replicate n [Poll, Sleep100])
        @ [SendKill, Wait1s]
        @ (if sigterm_ticks p = Some n \<or> kill_effective p then [] else [SendKill])"
proof -
  let ?p1 = "p\<lparr>calls := calls p @ [Poll, SendTerminate], countdown := sigterm_ticks p,
                exited := (sigterm_ticks p = Some 0)\<rparr>"
  let ?p2 = "?p1\<lparr>calls := calls ?p1 @ concat (replicate n [Poll, Sleep100]),
                  countdown := map_option (\<lambda>k. k - n) (countdown ?p1),
                  exited := (sigterm_ticks p = Some n)\<rparr>"
  have t: "terminate (snd (poll p)) = (None, ?p1)"
    using assms(1,2) by (simp add: terminate_def poll_def called_def)
  have loop: "wait_for_exit n ?p1 = (False, ?p2)"
  proof (cases "sigterm_ticks p = Some 0")
    case True
    then have "n = 0" using assms(4) by simp
    then show ?thesis using True by simp
  next
    case False
    then have "\<not> exited ?p1"
      and "case countdown ?p1 of None \<Rightarrow> True | Some k \<Rightarrow> n \<le> k \<and> 0 < k"
      using assms(4) by (auto split: option.splits)
    from wait_for_exit_alive [OF this] show ?thesis by simp
  qed
  have r: "terminate_process_gracefully p timeout = force_kill ?p2"
    using assms(1,3) t loop
    by (simp add: terminate_process_gracefully_def poll_def range_len_def)
  have ne: "\<not> signal_error ?p2" using assms(2) by simp
  show "fst (terminate_process_gracefully p timeout) = False"
    unfolding r by (rule force_kill_calls(1) [OF ne])
  show "calls (snd (terminate_process_gracefully p timeout)) =
      calls p @ [Poll, SendTerminate] @ concat (replicate n [Poll, Sleep100])
        @ [SendKill, Wait1s]
        @ (if sigterm_ticks p = Some n \<or> kill_effective p then [] else [SendKill])"
    unfolding r force_kill_calls(2) [OF ne] by simp
qed

text \<open>
  A timeout that is an infinity or a NaN: \<open>int()\<close> raises after SIGTERM was sent, the
  handler sends SIGKILL at once, and the result is the forced one.
\<close>

lemma terminate_non_finite_timeout:
  assumes "\<not> exited p" and "\<not> signal_error p"
    and "timeout = PosInf \<or> timeout = NegInf \<or> timeout = NaN"
  shows "fst (terminate_process_gracefully p timeout) = False"
    and "calls (snd (terminate_process_gracefully p timeout)) =
      calls p @ [Poll, SendTerminate, SendKill]"
  using assms
  by (auto simp: terminate_process_gracefully_def poll_def terminate_def last_kill_def
      kill_def py_int_def float_times_def called_def Let_def)

text \<open>
  C5. A child that has already exited when \<open>terminate_process_gracefully\<close> is called:
  the result is the graceful one (\<open>True\<close>), and the only call made on the handle is the
  first \<open>poll()\<close>; neither SIGTERM nor SIGKILL is sent, nothing is slept or waited for.
\<close>

theorem terminate_already_exited:
  "exited p \<Longrightarrow>
   fst (terminate_process_gracefully p timeout) = True \<and>
   snd (terminate_process_gracefully p timeout) = p\<lparr>calls := calls p @ [Poll]\<rparr> \<and>
   SendTerminate \<notin> set (calls (snd (terminate_process_gracefully p timeout))) - set (calls p) \<and>
   SendKill \<notin> set (calls (snd (terminate_process_gracefully p timeout))) - set (calls p)"
  by (simp add: terminate_process_gracefully_def poll_def called_def)

theorem terminate_already_exited_witness:
  "exited \<lparr>exited = True, sigterm_ticks = Some 2, countdown = None, signal_error = False,
      kill_effective = True, calls = []\<rparr> \<and>
   terminate_process_gracefully
     \<lparr>exited = True, sigterm_ticks = Some 2, countdown = None, signal_error = False,
      kill_effective = True, calls = []\<rparr> (Finite 3) =
   (True, \<lparr>exited = True, sigterm_ticks = Some 2, countdown = None, signal_error = False,
      kill_effective = True, calls = [Poll]\<rparr>)"
  using terminate_already_exited
    [of "\<lparr>exited = True, sigterm_ticks = Some 2, countdown = None, signal_error = False,
      kill_effective = True, calls = []\<rparr>" "Finite 3"]
  by (simp add: prod_eq_iff)

text \<open>
  C6, as stated, fails: with the timeout 0.3 (the double \<open>5404319552844595 / 2^54\<close>) the
  float product \<open>timeout * 10\<close> rounds to 3.0, so a child that ignores SIGTERM is polled
  three times, which is more than \<open>timeout / 0.1\<close>, whether the tenth is the exact one or
  the double 0.1 (\<open>3602879701896397 / 2^55\<close>).
\<close>

theorem poll_rounds_counterexample:
  "calls (snd (terminate_process_gracefully
      \<lparr>exited = False, sigterm_ticks = None, countdown = None, signal_error = False,
       kill_effective = True, calls = []\<rparr> (Finite (5404319552844595 / 2 ^ 54)))) =
     [Poll, SendTerminate, Poll, Sleep100, Poll, Sleep100, Poll, Sleep100, SendKill, Wait1s] \<and>
   (5404319552844595 / 2 ^ 54 :: real) / (1 / 10) < 3 \<and>
   (5404319552844595 / 2 ^ 54 :: real) / (3602879701896397 / 2 ^ 55) < 3"
proof -
  let ?p = "\<lparr>exited = False, sigterm_ticks = None, countdown = None, signal_error = False,
       kill_effective = True, calls = []\<rparr>"
  let ?t = "5404319552844595 / 2 ^ 54 :: real"
  have "py_int (float_times (Finite ?t) 10) = Inr (int (poll_rounds ?t))"
    by (rule poll_rounds_bound(2)) simp_all
  then have i: "py_int (float_times (Finite ?t) 10) = Inr (int 3)"
    by (simp only: poll_rounds_double_0_3)
  have "calls (snd (terminate_process_gracefully ?p (Finite ?t))) =
      calls ?p @ [Poll, SendTerminate] @ concat (replicate 3 [Poll, Sleep100])
        @ [SendKill, Wait1s]
        @ (if sigterm_ticks ?p = Some 3 \<or> kill_effective ?p then [] else [SendKill])"
    by (rule terminate_forced_calls(2) [OF _ _ i]) simp_all
  then show ?thesis by (simp add: eval_nat_numeral)
qed

text \<open>
  C6, amended. A live child that does not exit within \<open>timeout\<close> seconds of SIGTERM (it
  ignores the signal, or needs \<open>k\<close> sleeps of 100 ms with \<open>timeout < k / 10\<close>), SIGTERM
  being deliverable, for a timeout from 0 up to \<open>2^53 / 10\<close> seconds. The calls on the
  handle are exactly: the first poll, SIGTERM, then \<open>int(timeout * 10)\<close> rounds of poll and
  100 ms sleep, then SIGKILL and the one-second wait (and one more SIGKILL when that wait
  times out). The product is a float product, so the number of rounds is the integer
  part of \<open>timeout / 0.1\<close> or one more (never more than that), and the result is the
  forced one (\<open>False\<close>). The function is total, so the call returns.
\<close>

theorem terminate_forced_after_timeout:
  assumes "\<not> exited p" and "\<not> signal_error p"
    and "0 \<le> timeout" and "timeout * 10 < 2 ^ 53"
    and "case sigterm_ticks p of None \<Rightarrow> True | Some k \<Rightarrow> timeout < real k / 10"
  shows "fst (terminate_process_gracefully p (Finite timeout)) = False \<and>
    calls (snd (terminate_process_gracefully p (Finite timeout))) =
      calls p @ [Poll, SendTerminate]
        @ concat (replicate (poll_rounds timeout) [Poll, Sleep100])
        @ [SendKill, Wait1s]
        @ (if sigterm_ticks p = Some (poll_rounds timeout) \<or> kill_effective p
           then [] else [SendKill]) \<and>
    \<lfloor>timeout / (1 / 10)\<rfloor> \<le> int (poll_rounds timeout) \<and>
    int (poll_rounds timeout) \<le> \<lfloor>timeout / (1 / 10)\<rfloor> + 1"
proof -
  let ?n = "poll_rounds timeout"
  note b = poll_rounds_bound [OF assms(3,4)]
  have le: "case sigterm_ticks p of None \<Rightarrow> True | Some k \<Rightarrow> ?n \<le> k"
  proof (cases "sigterm_ticks p")
    case None
    then show ?thesis by simp
  next
    case (Some k)
    then have "timeout * 10 < real k" using assms(5) by simp
    then have "\<lfloor>timeout * 10\<rfloor> + 1 \<le> int k" by linarith
    then show ?thesis using Some b(1) by simp
  qed
  note c = terminate_forced_calls [OF assms(1,2) b(2) le]
  show ?thesis
    using c b(1) poll_rounds_lower [OF assms(3,4)] by simp
qed

theorem terminate_forced_after_timeout_witness:
  "terminate_process_gracefully
     \<lparr>exited = False, sigterm_ticks = Some 6, countdown = None, signal_error = False,
      kill_effective = True, calls = []\<rparr> (Finite (1 / 2)) =
   (False, snd (terminate_process_gracefully
     \<lparr>exited = False, sigterm_ticks = Some 6, countdown = None, signal_error = False,
      kill_effective = True, calls = []\<rparr> (Finite (1 / 2)))) \<and>
   calls (snd (terminate_process_gracefully
     \<lparr>exited = False, sigterm_ticks = Some 6, countdown = None, signal_error = False,
      kill_effective = True, calls = []\<rparr> (Finite (1 / 2)))) =
     [Poll, SendTerminate, Poll, Sleep100, Poll, Sleep100, Poll, Sleep100, Poll, Sleep100,
      Poll, Sleep100, SendKill, Wait1s]"
proof -
  let ?p = "\<lparr>exited = False, sigterm_ticks = Some 6, countdown = None, signal_error = False,
      kill_effective = True, calls = []\<rparr>"
  have h: "\<not> exited ?p" "\<not> signal_error ?p" "(0::real) \<le> 1 / 2" "(1 / 2 :: real) * 10 < 2 ^ 53"
    "case sigterm_ticks ?p of None \<Rightarrow> True | Some k \<Rightarrow> (1 / 2 :: real) < real k / 10"
    by simp_all
  show ?thesis
    using terminate_forced_after_timeout [OF h]
    by (simp add: poll_rounds_half prod_eq_iff eval_nat_numeral)
qed

section \<open>Facts about paths\<close>

lemma split_on_no_sep: "w \<in> set (split_on c s) \<Longrightarrow> c \<notin> set w"
  by (induction s arbitrary: w) (auto split: list.splits if_splits)

lemma split_on_plain: "c \<notin> set w \<Longrightarrow> split_on c w = [w]"
  by (induction w) auto

lemma split_on_append: "c \<notin> set w \<Longrightarrow> split_on c (w @ c # s) = w # split_on c s"
  by (induction w) (auto)

lemma split_on_join:
  "ws \<noteq> [] \<Longrightarrow> \<forall>w\<in>set ws. c \<notin> set w \<Longrightarrow> split_on c (join_with c ws) = ws"
proof (induction c ws rule: join_with.induct)
  case (1 c)
  then show ?case by simp
next
  case (2 c w)
  then show ?case by (simp add: split_on_plain)
next
  case (3 c w v va)
  then show ?case by (simp add: split_on_append)
qed

lemma normal_path_parts: "normal_parts (path_parts s)"
  by (auto simp: normal_parts_def path_parts_def dest: split_on_no_sep)

lemma path_parts_join: "normal_parts ps \<Longrightarrow> path_parts (join_with CHR ''/'' ps) = ps"
proof (cases "ps = []")
  case True
  then show ?thesis by (simp add: path_parts_def)
next
  case False
  assume n: "normal_parts ps"
  then have "split_on CHR ''/'' (join_with CHR ''/'' ps) = ps"
    using False by (intro split_on_join) (auto simp: normal_parts_def)
  then show ?thesis using n by (auto simp: path_parts_def normal_parts_def filter_id_conv)
qed

lemma path_parts_slash: "path_parts (CHR ''/'' # s) = path_parts s"
  by (simp add: path_parts_def)

lemma join_hd: "normal_parts ps \<Longrightarrow> ps \<noteq> [] \<Longrightarrow> \<exists>c r. join_with CHR ''/'' ps = c # r \<and> c \<noteq> CHR ''/''"
proof (induction "CHR ''/''" ps rule: join_with.induct)
  case 1
  then show ?case by simp
next
  case (2 w)
  then show ?case by (cases w) (auto simp: normal_parts_def)
next
  case (3 w v va)
  then show ?case by (cases w) (auto simp: normal_parts_def)
qed

lemma path_root_join: "normal_parts ps \<Longrightarrow> path_root (join_with CHR ''/'' ps) = []"
proof (cases "ps = []")
  case True then show ?thesis by (simp add: path_root_def)
next
  case False
  assume "normal_parts ps"
  from join_hd [OF this False] obtain c r where "join_with CHR ''/'' ps = c # r" "c \<noteq> CHR ''/''" by blast
  then show ?thesis by (auto simp: path_root_def split: list.splits)
qed

lemma path_root_slash_join: "normal_parts ps \<Longrightarrow> path_root (CHR ''/'' # join_with CHR ''/'' ps) = ''/''"
proof (cases "ps = []")
  case True then show ?thesis by (simp add: path_root_def)
next
  case False
  assume "normal_parts ps"
  from join_hd [OF this False] obtain c r where "join_with CHR ''/'' ps = c # r" "c \<noteq> CHR ''/''" by blast
  then show ?thesis by (auto simp: path_root_def split: list.splits)
qed

lemma path_root_slash2_join: "normal_parts ps \<Longrightarrow> path_root (CHR ''/'' # CHR ''/'' # join_with CHR ''/'' ps) = ''//''"
proof (cases "ps = []")
  case True then show ?thesis by (simp add: path_root_def)
next
  case False
  assume "normal_parts ps"
  from join_hd [OF this False] obtain c r where "join_with CHR ''/'' ps = c # r" "c \<noteq> CHR ''/''" by blast
  then show ?thesis by (auto simp: path_root_def split: list.splits)
qed

lemma path_root_cases: "path_root s = [] \<or> path_root s = ''/'' \<or> path_root s = ''//''"
  by (auto simp: path_root_def split: list.splits)

lemma Path_idem: "Path (Path s) = Path s"
proof -
  let ?ps = "path_parts s"
  have n: "normal_parts ?ps" by (rule normal_path_parts)
  consider "path_root s = []" "?ps = []" | "path_root s = []" "?ps \<noteq> []"
    | "path_root s = ''/''" | "path_root s = ''//''"
    using path_root_cases [of s] by blast
  then show ?thesis
  proof cases
    case 1
    then have "Path s = ''.''" by (simp add: Path_def)
    moreover have "Path ''.'' = ''.''" by (simp add: Path_def path_root_def path_parts_def)
    ultimately show ?thesis by simp
  next
    case 2
    then have p: "Path s = join_with CHR ''/'' ?ps" by (simp add: Path_def)
    show ?thesis unfolding p using 2
      by (simp add: Path_def path_parts_join [OF n] path_root_join [OF n])
  next
    case 3
    then have p: "Path s = CHR ''/'' # join_with CHR ''/'' ?ps" by (simp add: Path_def)
    show ?thesis unfolding p
      by (simp add: Path_def path_parts_slash path_parts_join [OF n] path_root_slash_join [OF n])
  next
    case 4
    then have p: "Path s = CHR ''/'' # CHR ''/'' # join_with CHR ''/'' ?ps" by (simp add: Path_def)
    show ?thesis unfolding p
      by (simp add: Path_def path_parts_slash path_parts_join [OF n] path_root_slash2_join [OF n])
  qed
qed

lemma Path_nonempty: "Path s \<noteq> []"
proof (cases "path_root s = [] \<and> path_parts s = []")
  case True
  then show ?thesis by (simp add: Path_def)
next
  case False
  show ?thesis
  proof (cases "path_root s = []")
    case True
    then have "path_parts s \<noteq> []" using False by simp
    from join_hd [OF normal_path_parts this] show ?thesis
      using True by (auto simp: Path_def)
  next
    case False
    then show ?thesis by (simp add: Path_def)
  qed
qed

lemma path_div_Path: "Path (path_div p n) = path_div p n"
  by (simp add: path_div_def Path_idem split: list.splits)

lemma path_div_nonempty: "path_div p n \<noteq> []"
  by (simp add: path_div_def Path_nonempty split: list.splits)

section \<open>Transcripts, recordings and the webhook\<close>

lemma save_metadata_cache [simp]: "metadata_cache (snd (save_metadata s)) = metadata_cache s"
  by (simp add: save_metadata_def logged_def Let_def)

lemma save_metadata_tasks [simp]: "tasks (snd (save_metadata s)) = tasks s"
  by (simp add: save_metadata_def logged_def Let_def)

lemma save_metadata_unwritable [simp]: "unwritable (snd (save_metadata s)) = unwritable s"
  by (simp add: save_metadata_def logged_def Let_def)

lemma save_metadata_exists: "path_exists s p \<Longrightarrow> path_exists (snd (save_metadata s)) p"
  by (simp add: save_metadata_def logged_def Let_def path_exists_def)

lemma hd_concat_words:
  "tr \<noteq> [] \<Longrightarrow> words (hd tr) \<noteq> [] \<Longrightarrow> hd (concat (map words tr)) = hd (words (hd tr))"
  by (cases tr) auto

lemma last_concat_words:
  "tr \<noteq> [] \<Longrightarrow> words (last tr) \<noteq> [] \<Longrightarrow> last (concat (map words tr)) = last (words (last tr))"
proof (induction tr)
  case Nil
  then show ?case by simp
next
  case (Cons a tr)
  show ?case
  proof (cases "tr = []")
    case True
    then show ?thesis by simp
  next
    case False
    then have "words (last tr) \<noteq> []" using Cons.prems by simp
    then have "concat (map words tr) \<noteq> []" using False last_in_set [of tr] by auto
    then show ?thesis using Cons False by simp
  qed
qed

lemma calculate_duration_spec:
  "tr \<noteq> [] \<Longrightarrow> words (hd tr) \<noteq> [] \<Longrightarrow> words (last tr) \<noteq> [] \<Longrightarrow>
   calculate_duration tr = spec_duration tr"
proof -
  assume a: "tr \<noteq> []" "words (hd tr) \<noteq> []" "words (last tr) \<noteq> []"
  then have "concat (map words tr) \<noteq> []" by (cases tr) auto
  then show ?thesis
    using a by (simp add: calculate_duration_def spec_duration_def Let_def
        hd_concat_words last_concat_words)
qed

lemma save_meeting_transcript_stored:
  assumes "save_meeting_transcript s now now' b d = (Inr mid, s')"
  shows "mid = b @ ''_'' @ strftime now"
    and "dict_get (metadata_cache s') mid =
      Some \<lparr>bot_id = b, meeting_id = mid, timestamp = now',
            duration = calculate_duration (transcript d),
            num_speakers = length (speakers d), recording_path = None,
            transcript_path = path_div TRANSCRIPT_DIR (mid @ ''_transcript.json'')\<rparr>"
    and "tasks s' = tasks s @ [(mid, mp4 d,
          \<lparr>bot_id = b, meeting_id = mid, timestamp = now',
            duration = calculate_duration (transcript d),
            num_speakers = length (speakers d), recording_path = None,
            transcript_path = path_div TRANSCRIPT_DIR (mid @ ''_transcript.json'')\<rparr>)]"
    and "unwritable s' = unwritable s"
  using assms
  by (auto simp: save_meeting_transcript_def Let_def dict_get_dict_set split: if_splits)

text \<open>
  C3, as stated, fails: the first segment has no words, so the code stores no duration,
  although the first word across all segments starts at 0 and the last one ends at 9.
\<close>

theorem duration_counterexample:
  "stored_duration
     (snd (save_meeting_transcript init_service
        \<lparr>year = 2024, month = 5, day = 17, hour = 12, minute = 30, second = 45, microsecond = 0\<rparr>
        \<lparr>year = 2024, month = 5, day = 17, hour = 12, minute = 30, second = 45, microsecond = 9\<rparr>
        ''bot'' \<lparr>mc_bot_id = ''bot'', mp4 = ''https://media/r.mp4'', speakers = [''A'', ''B''],
         transcript = [\<lparr>speaker = ''A'', words = []\<rparr>,
                       \<lparr>speaker = ''B'', words = [\<lparr>w_start = 0, w_end = 9, w_word = ''hi''\<rparr>]\<rparr>]\<rparr>))
     ''bot_20240517_123045'' = Some None \<and>
   spec_duration [\<lparr>speaker = ''A'', words = []\<rparr>,
                  \<lparr>speaker = ''B'', words = [\<lparr>w_start = 0, w_end = 9, w_word = ''hi''\<rparr>]\<rparr>] = Some 9"
  by (simp add: stored_duration_def save_meeting_transcript_def init_service_def Let_def
      strftime_def pad4_def pad2_def digit_def dict_get_def calculate_duration_def
      spec_duration_def)

text \<open>
  C3, amended. Whenever a \<open>complete\<close> payload is saved, the stored duration is the span
  from the first word of the first segment to the last word of the last segment, which is
  the span across all segments, when the transcript is not empty and both its first and
  its last segment have words; in every other case the duration is unset.
\<close>

theorem stored_duration_first_last_segment:
  assumes "save_meeting_transcript s now now' b d = (Inr mid, s')"
  shows "stored_duration s' mid =
     Some (if transcript d \<noteq> [] \<and> words (hd (transcript d)) \<noteq> []
              \<and> words (last (transcript d)) \<noteq> []
           then spec_duration (transcript d) else None)"
proof -
  have "stored_duration s' mid = Some (calculate_duration (transcript d))"
    using save_meeting_transcript_stored(2) [OF assms] by (simp add: stored_duration_def)
  moreover have "calculate_duration (transcript d) =
      (if transcript d \<noteq> [] \<and> words (hd (transcript d)) \<noteq> [] \<and> words (last (transcript d)) \<noteq> []
       then spec_duration (transcript d) else None)"
    using calculate_duration_spec [of "transcript d"]
    by (auto simp: calculate_duration_def Let_def)
  ultimately show ?thesis by simp
qed


theorem stored_duration_first_last_segment_witness:
  "stored_duration
     (snd (save_meeting_transcript init_service
        \<lparr>year = 2024, month = 5, day = 17, hour = 12, minute = 30, second = 45, microsecond = 0\<rparr>
        \<lparr>year = 2024, month = 5, day = 17, hour = 12, minute = 30, second = 45, microsecond = 9\<rparr>
        ''bot'' \<lparr>mc_bot_id = ''bot'', mp4 = ''https://media/r.mp4'', speakers = [''A'', ''B''],
         transcript = [\<lparr>speaker = ''A'', words = [\<lparr>w_start = 0, w_end = 1 / 2, w_word = ''Hello''\<rparr>]\<rparr>,
                       \<lparr>speaker = ''B'', words = [\<lparr>w_start = 4, w_end = 9 / 2, w_word = ''Thanks''\<rparr>,
                                                 \<lparr>w_start = 86 / 10, w_end = 9, w_word = ''here''\<rparr>]\<rparr>]\<rparr>))
     ''bot_20240517_123045'' = Some (Some 9)"
proof -
  let ?now = "\<lparr>year = 2024, month = 5, day = 17, hour = 12, minute = 30, second = 45, microsecond = 0\<rparr>"
  let ?now' = "\<lparr>year = 2024, month = 5, day = 17, hour = 12, minute = 30, second = 45, microsecond = 9\<rparr>"
  let ?tr = "[\<lparr>speaker = ''A'', words = [\<lparr>w_start = 0, w_end = 1 / 2, w_word = ''Hello''\<rparr>]\<rparr>,
              \<lparr>speaker = ''B'', words = [\<lparr>w_start = 4, w_end = 9 / 2, w_word = ''Thanks''\<rparr>,
                                        \<lparr>w_start = 86 / 10, w_end = 9, w_word = ''here''\<rparr>]\<rparr>]"
  let ?d = "\<lparr>mc_bot_id = ''bot'', mp4 = ''https://media/r.mp4'', speakers = [''A'', ''B''],
             transcript = ?tr\<rparr>"
  let ?r = "save_meeting_transcript init_service ?now ?now' ''bot'' ?d"
  have "fst ?r = Inr ''bot_20240517_123045''"
    by (simp add: save_meeting_transcript_def init_service_def Let_def
        strftime_def pad4_def pad2_def digit_def)
  then have h: "?r = (Inr ''bot_20240517_123045'', snd ?r)"
    by (simp add: prod_eq_iff)
  have "spec_duration ?tr = Some 9"
    by (simp add: spec_duration_def)
  then show ?thesis
    using stored_duration_first_last_segment [OF h] by simp
qed

text \<open>
  C4 at a failing input: two \<open>complete\<close> webhooks for the same bot id whose clock readings
  fall in the same second get the same meeting id, and the index holds one record.
\<close>

theorem same_second_same_meeting_id:
  "(let now1 = \<lparr>year = 2024, month = 5, day = 17, hour = 12, minute = 30, second = 45, microsecond = 100000\<rparr>;
        now2 = \<lparr>year = 2024, month = 5, day = 17, hour = 12, minute = 30, second = 45, microsecond = 900000\<rparr>;
        d = \<lparr>mc_bot_id = ''bot'', mp4 = ''https://media/r.mp4'', speakers = [''A''],
             transcript = [\<lparr>speaker = ''A'', words = [\<lparr>w_start = 0, w_end = 9, w_word = ''hi''\<rparr>]\<rparr>]\<rparr>;
        r1 = save_meeting_transcript init_service now1 now1 ''bot'' d;
        r2 = save_meeting_transcript (snd r1) now2 now2 ''bot'' d
    in fst r1 = Inr ''bot_20240517_123045'' \<and> fst r2 = Inr ''bot_20240517_123045''
       \<and> length (list_transcripts (snd r2)) = 1)"
  by (simp add: save_meeting_transcript_def init_service_def Let_def list_transcripts_def
      dict_values_def strftime_def pad4_def pad2_def digit_def save_metadata_def logged_def)

text \<open>
  C7, as stated, fails: the response to an unknown event kind carries the status
  \<open>error\<close>, the same classification as the response to a \<open>failed\<close> event.
\<close>

theorem unknown_event_counterexample:
  "response_status
     (projr (fst (meetingbaas_webhook init_service
        \<lparr>year = 2024, month = 5, day = 17, hour = 12, minute = 30, second = 45, microsecond = 0\<rparr>
        \<lparr>year = 2024, month = 5, day = 17, hour = 12, minute = 30, second = 45, microsecond = 9\<rparr>
        \<lparr>event = ''bot.joined'',
         data = \<lparr>as_completed = None, as_failed = None, as_status = None\<rparr>\<rparr>))) = Some ''error''"
  by (simp add: meetingbaas_webhook_def Let_def dict_get_def)

text \<open>
  C7, amended. For every event whose kind is none of \<open>complete\<close>, \<open>failed\<close> and
  \<open>bot.status_change\<close> the handler returns normally (no exception, status 200), logs a
  warning, answers with the status field \<open>error\<close> and the message naming the kind, and
  changes nothing but the log: no metadata, no file, no background task.
\<close>

theorem unknown_event_response:
  assumes "event e \<noteq> ''complete''" and "event e \<noteq> ''failed''"
    and "event e \<noteq> ''bot.status_change''"
  shows "meetingbaas_webhook s now now' e =
     (Inr (Dict [(''status'', ''error''),
                 (''message'', ''Unknown webhook event: '' @ event e)]),
      s\<lparr>log := log s @ [(INFO, ''Received MeetingBaas webhook event: '' @ event e),
                        (WARNING, ''Unknown webhook event: '' @ event e)]\<rparr>) \<and>
    metadata_cache (snd (meetingbaas_webhook s now now' e)) = metadata_cache s \<and>
    files (snd (meetingbaas_webhook s now now' e)) = files s \<and>
    tasks (snd (meetingbaas_webhook s now now' e)) = tasks s"
  using assms by (simp add: meetingbaas_webhook_def Let_def logged_def)

theorem unknown_event_response_witness:
  "meetingbaas_webhook init_service
        \<lparr>year = 2024, month = 5, day = 17, hour = 12, minute = 30, second = 45, microsecond = 0\<rparr>
        \<lparr>year = 2024, month = 5, day = 17, hour = 12, minute = 30, second = 45, microsecond = 9\<rparr>
        \<lparr>event = ''bot.joined'',
         data = \<lparr>as_completed = None, as_failed = None, as_status = None\<rparr>\<rparr> =
     (Inr (Dict [(''status'', ''error''),
                 (''message'', ''Unknown webhook event: bot.joined'')]),
      init_service\<lparr>log := [(INFO, ''Received MeetingBaas webhook event: bot.joined''),
                        (WARNING, ''Unknown webhook event: bot.joined'')]\<rparr>)"
  using unknown_event_response [of "\<lparr>event = ''bot.joined'',
         data = \<lparr>as_completed = None, as_failed = None, as_status = None\<rparr>\<rparr>" init_service]
  by (simp add: init_service_def)



lemma get_recording_path_iff:
  "(get_recording_path s mid = Some p) =
   (\<exists>m rp. dict_get (metadata_cache s) mid = Some m \<and> recording_path m = Some rp \<and> rp \<noteq> []
      \<and> path_exists s (Path rp) \<and> p = Path rp)"
  by (cases "dict_get (metadata_cache s) mid"; cases "recording_path (the (dict_get (metadata_cache s) mid))")
     (auto simp: get_recording_path_def Let_def)

lemma get_recording_path_after_save:
  assumes "save_meeting_transcript s now now' b d = (Inr mid, s')"
  shows "get_recording_path s' mid = None"
  using save_meeting_transcript_stored(2) [OF assms]
  by (simp add: get_recording_path_def)

lemma write_chunks_clean:
  "fst (write_chunks chunks acc) = (None \<notin> set (reads_before_end chunks))"
  by (induction chunks acc rule: write_chunks.induct) (auto simp: reads_before_end_def)

lemma download_recording_success:
  assumes "download_completes s mid answer"
  shows "get_recording_path (download_recording s (mid, url, m) answer) mid =
     Some (path_div RECORDING_DIR (mid @ ''.mp4''))"
proof -
  let ?rp = "path_div RECORDING_DIR (mid @ ''.mp4'')"
  obtain chunks where a: "answer = Response 200 chunks" and w: "?rp \<notin> unwritable s"
    and c: "None \<notin> set (reads_before_end chunks)"
    using assms by (auto simp: download_completes_def split: http_answer.splits)
  have "fst (write_chunks chunks [])"
    using c by (simp add: write_chunks_clean)
  then obtain written where wr: "write_chunks chunks [] = (True, written)"
    by (cases "write_chunks chunks []") auto
  let ?s0 = "logged INFO (''Downloading recording for meeting '' @ mid) s"
  let ?s2 = "?s0\<lparr>files := (files ?s0)(?rp \<mapsto> Mp4 written),
                 metadata_cache := dict_set (metadata_cache ?s0) mid (m\<lparr>recording_path := Some ?rp\<rparr>)\<rparr>"
  have d: "download_recording s (mid, url, m) answer =
      logged INFO (''Successfully downloaded recording for meeting '' @ mid) (snd (save_metadata ?s2))"
    using a w wr by (simp add: download_recording_def Let_def logged_def)
  have ex: "path_exists (snd (save_metadata ?s2)) ?rp"
    by (rule save_metadata_exists) (simp add: path_exists_def)
  show ?thesis
    unfolding d using ex
    by (simp add: get_recording_path_def logged_def dict_get_dict_set path_div_Path
        path_div_nonempty path_exists_def Let_def)
qed

lemma download_recording_failure:
  assumes "\<not> download_completes s mid answer"
  shows "metadata_cache (download_recording s (mid, url, m) answer) = metadata_cache s"
proof (cases answer)
  case ConnectionError
  then show ?thesis by (simp add: download_recording_def Let_def logged_def)
next
  case (Response code chunks)
  show ?thesis
  proof (cases "code = 200 \<and> path_div RECORDING_DIR (mid @ ''.mp4'') \<notin> unwritable s")
    case True
    then have "\<not> fst (write_chunks chunks [])"
      using assms Response by (simp add: download_completes_def write_chunks_clean)
    then obtain written where "write_chunks chunks [] = (False, written)"
      by (cases "write_chunks chunks []") auto
    then show ?thesis
      using True Response by (simp add: download_recording_def Let_def logged_def)
  next
    case False
    then show ?thesis
      using Response by (auto simp: download_recording_def Let_def logged_def)
  qed
qed

lemma get_recording_path_cache_None:
  "dict_get (metadata_cache s) mid = Some m \<Longrightarrow> recording_path m = None \<Longrightarrow>
   get_recording_path s mid = None"
  by (simp add: get_recording_path_def)

text \<open>
  C8. \<open>get_recording_path\<close> returns a path exactly when the metadata of the meeting
  records a (non-empty) recording path and the file at that path exists, and the path
  returned is that one. Right after a \<open>complete\<close> webhook has been saved it returns
  nothing for the new meeting id; after the background download created by that call has
  run, it returns the recording path when the download completed (status 200, the file
  could be opened, no read raised before the end of the stream) and nothing otherwise.
\<close>

theorem recording_path_lifecycle:
  "(get_recording_path s mid = Some p \<longleftrightarrow>
      (\<exists>m rp. dict_get (metadata_cache s) mid = Some m \<and> recording_path m = Some rp \<and> rp \<noteq> []
         \<and> path_exists s (Path rp) \<and> p = Path rp)) \<and>
   (save_meeting_transcript s now now' b d = (Inr mid', s') \<longrightarrow>
      get_recording_path s' mid' = None \<and>
      get_recording_path (download_recording s' (last (tasks s')) answer) mid' =
        (if download_completes s' mid' answer
         then Some (path_div RECORDING_DIR (mid' @ ''.mp4'')) else None))"
proof (intro conjI impI)
  show "get_recording_path s mid = Some p \<longleftrightarrow>
      (\<exists>m rp. dict_get (metadata_cache s) mid = Some m \<and> recording_path m = Some rp \<and> rp \<noteq> []
         \<and> path_exists s (Path rp) \<and> p = Path rp)"
    by (rule get_recording_path_iff)
next
  assume h: "save_meeting_transcript s now now' b d = (Inr mid', s')"
  show "get_recording_path s' mid' = None"
    by (rule get_recording_path_after_save [OF h])
next
  assume h: "save_meeting_transcript s now now' b d = (Inr mid', s')"
  let ?m = "\<lparr>bot_id = b, meeting_id = mid', timestamp = now',
            duration = calculate_duration (transcript d),
            num_speakers = length (speakers d), recording_path = None,
            transcript_path = path_div TRANSCRIPT_DIR (mid' @ ''_transcript.json'')\<rparr>"
  have t: "last (tasks s') = (mid', mp4 d, ?m)"
    using save_meeting_transcript_stored(3) [OF h] by simp
  show "get_recording_path (download_recording s' (last (tasks s')) answer) mid' =
        (if download_completes s' mid' answer
         then Some (path_div RECORDING_DIR (mid' @ ''.mp4'')) else None)"
  proof (cases "download_completes s' mid' answer")
    case True
    then show ?thesis
      unfolding t using download_recording_success [OF True] by simp
  next
    case False
    have "dict_get (metadata_cache (download_recording s' (mid', mp4 d, ?m) answer)) mid' = Some ?m"
      using download_recording_failure [OF False] save_meeting_transcript_stored(2) [OF h]
      by simp
    then have "get_recording_path (download_recording s' (mid', mp4 d, ?m) answer) mid' = None"
      by (rule get_recording_path_cache_None) simp
    then show ?thesis
      unfolding t using False by simp
  qed
qed


theorem recording_path_lifecycle_witness:
  "(let r = save_meeting_transcript init_service
        \<lparr>year = 2024, month = 5, day = 17, hour = 12, minute = 30, second = 45, microsecond = 0\<rparr>
        \<lparr>year = 2024, month = 5, day = 17, hour = 12, minute = 30, second = 45, microsecond = 9\<rparr>
        ''bot'' \<lparr>mc_bot_id = ''bot'', mp4 = ''https://media/r.mp4'', speakers = [''A''],
         transcript = [\<lparr>speaker = ''A'', words = [\<lparr>w_start = 0, w_end = 9, w_word = ''hi''\<rparr>]\<rparr>]\<rparr>
    in fst r = Inr ''bot_20240517_123045'' \<and>
       get_recording_path (snd r) ''bot_20240517_123045'' = None \<and>
       get_recording_path
         (download_recording (snd r) (last (tasks (snd r))) (Response 200 [Some ''abc'', Some ''de'']))
         ''bot_20240517_123045'' = Some ''data/recordings/bot_20240517_123045.mp4'' \<and>
       get_recording_path
         (download_recording (snd r) (last (tasks (snd r)))
            (Response 200 [Some ''abc'', Some [], None]))
         ''bot_20240517_123045'' = Some ''data/recordings/bot_20240517_123045.mp4'' \<and>
       get_recording_path
         (download_recording (snd r) (last (tasks (snd r)))
            (Response 200 [Some ''abc'', None, Some ''de'']))
         ''bot_20240517_123045'' = None \<and>
       get_recording_path
         (download_recording (snd r) (last (tasks (snd r))) (Response 404 []))
         ''bot_20240517_123045'' = None \<and>
       get_recording_path
         (download_recording (snd r) (last (tasks (snd r))) ConnectionError)
         ''bot_20240517_123045'' = None)"
proof -
  let ?now = "\<lparr>year = 2024, month = 5, day = 17, hour = 12, minute = 30, second = 45, microsecond = 0\<rparr>"
  let ?now' = "\<lparr>year = 2024, month = 5, day = 17, hour = 12, minute = 30, second = 45, microsecond = 9\<rparr>"
  let ?d = "\<lparr>mc_bot_id = ''bot'', mp4 = ''https://media/r.mp4'', speakers = [''A''],
         transcript = [\<lparr>speaker = ''A'', words = [\<lparr>w_start = 0, w_end = 9, w_word = ''hi''\<rparr>]\<rparr>]\<rparr>"
  let ?r = "save_meeting_transcript init_service ?now ?now' ''bot'' ?d"
  let ?mid = "''bot_20240517_123045''"
  have f: "fst ?r = Inr ?mid"
    by (simp add: save_meeting_transcript_def init_service_def Let_def
        strftime_def pad4_def pad2_def digit_def)
  then have h: "?r = (Inr ?mid, snd ?r)"
    by (simp add: prod_eq_iff)
  have u: "unwritable (snd ?r) = {}"
    by (simp add: save_meeting_transcript_def init_service_def Let_def save_metadata_def)
  have p: "path_div RECORDING_DIR (?mid @ ''.mp4'') = ''data/recordings/bot_20240517_123045.mp4''"
    by (simp add: path_div_def RECORDING_DIR_def Path_def path_root_def path_parts_def)
  have ok: "download_completes (snd ?r) ?mid (Response 200 [Some ''abc'', Some ''de''])"
    "download_completes (snd ?r) ?mid (Response 200 [Some ''abc'', Some [], None])"
    by (simp_all add: download_completes_def reads_before_end_def u)
  have ko: "\<not> download_completes (snd ?r) ?mid (Response 200 [Some ''abc'', None, Some ''de''])"
    "\<not> download_completes (snd ?r) ?mid (Response 404 [])"
    "\<not> download_completes (snd ?r) ?mid ConnectionError"
    by (simp_all add: download_completes_def reads_before_end_def)
  note t = recording_path_lifecycle [where s = init_service and now = ?now and now' = ?now'
      and b = "''bot''" and d = ?d and mid' = ?mid and s' = "snd ?r"]
  show ?thesis
    using t [where answer = "Response 200 [Some ''abc'', Some ''de'']"]
      t [where answer = "Response 200 [Some ''abc'', Some [], None]"]
      t [where answer = "Response 200 [Some ''abc'', None, Some ''de'']"]
      t [where answer = "Response 404 []"]
      t [where answer = ConnectionError]
      h f ok ko p
    by (simp add: Let_def)
qed

section \<open>Personas\<close>

lemma setitem_frame:
  "personas (setitem pm a k v) = personas pm"
  "personas_dir (setitem pm a k v) = personas_dir pm"
  "length (objects (setitem pm a k v)) = length (objects pm)"
  "n \<le> a \<Longrightarrow> take n (objects (setitem pm a k v)) = take n (objects pm)"
  "a < length (objects pm) \<Longrightarrow> objects (setitem pm a k v) ! a = dict_set (objects pm ! a) k v"
  by (simp_all add: setitem_def)

lemma dict_get_in_values:
  "k \<in> set (dict_keys d) \<Longrightarrow> the (dict_get d k) \<in> set (dict_values d)"
proof -
  assume "k \<in> set (dict_keys d)"
  then obtain v where "map_of d k = Some v"
    by (cases "map_of d k") (auto simp: dict_keys_def map_of_eq_None_iff)
  then show ?thesis
    by (auto simp: dict_get_def dict_values_def dest!: map_of_SomeD intro!: rev_image_eqI)
qed

lemma closest_match_loop_key:
  "closest_match_loop ws ks (c, m) = (Some k, m') \<Longrightarrow> k \<in> set ks \<or> c = Some k"
  by (induction ks arbitrary: c m) (auto simp: Let_def split: if_splits)

lemma select_persona_frame:
  assumes "select_persona pm name rnd = (r, pm1)"
  shows "personas pm1 = personas pm" and "personas_dir pm1 = personas_dir pm"
    and "take (length (objects pm)) (objects pm1) = objects pm"
  using assms
  by (auto simp: select_persona_def dict_copy_def Let_def split: if_splits prod.splits)

lemma select_persona_copy:
  assumes "select_persona pm name rnd = (Inr persona, pm1)"
  shows "persona = length (objects pm) \<and>
    (\<exists>a \<in> set (dict_values (personas pm)). objects pm1 = objects pm @ [objects pm ! a])"
proof (cases "truthy_opt name")
  case True
  let ?f = "replace_char CHR '' '' CHR ''_'' (lower (the name))"
  show ?thesis
  proof (cases "?f \<in> set (dict_keys (personas pm))")
    case f: True
    then show ?thesis
      using assms True dict_get_in_values [OF f]
      by (auto simp: select_persona_def dict_copy_def Let_def)
  next
    case False
    obtain c m where l: "closest_match_loop (split_ws (lower (the name))) (dict_keys (personas pm)) (None, 0) = (c, m)"
      by (cases "closest_match_loop (split_ws (lower (the name))) (dict_keys (personas pm)) (None, 0)") auto
    then have ok: "truthy_opt c \<and> m \<ge> 1"
      using assms True False by (auto simp: select_persona_def Let_def split: if_splits)
    then obtain k where c: "c = Some k" by (cases c) auto
    then have "k \<in> set (dict_keys (personas pm))"
      using closest_match_loop_key [of _ _ None 0 k m] l by auto
    from dict_get_in_values [OF this] show ?thesis
      using assms True False l ok c
      by (auto simp: select_persona_def dict_copy_def Let_def)
  qed
next
  case False
  then have ne: "dict_values (personas pm) \<noteq> []"
    using assms by (auto simp: select_persona_def split: if_splits)
  then have "dict_values (personas pm) ! (rnd mod length (dict_values (personas pm)))
      \<in> set (dict_values (personas pm))"
    by (intro nth_mem) simp
  then show ?thesis
    using assms False ne
    by (auto simp: select_persona_def dict_copy_def Let_def split: if_splits)
qed

lemma get_persona_frame:
  assumes "get_persona I pm name rnd = (r, pm')"
  shows "personas pm' = personas pm" and "personas_dir pm' = personas_dir pm"
    and "take (length (objects pm)) (objects pm') = objects pm"
proof -
  obtain r1 pm1 where s: "select_persona pm name rnd = (r1, pm1)"
    by (cases "select_persona pm name rnd") auto
  note f = select_persona_frame [OF s]
  have all: "personas pm' = personas pm \<and> personas_dir pm' = personas_dir pm
      \<and> take (length (objects pm)) (objects pm') = objects pm"
  proof (cases r1)
    case (Inl e)
    then show ?thesis using assms s f by (simp add: get_persona_def)
  next
    case (Inr persona)
    then have p: "persona = length (objects pm)"
      using select_persona_copy s by blast
    have keep: "\<And>q k v. personas q = personas pm \<and> personas_dir q = personas_dir pm
        \<and> take (length (objects pm)) (objects q) = objects pm \<Longrightarrow>
      personas (setitem q persona k v) = personas pm
        \<and> personas_dir (setitem q persona k v) = personas_dir pm
        \<and> take (length (objects pm)) (objects (setitem q persona k v)) = objects pm"
      using p by (simp add: setitem_frame)
    let ?pm2 = "if \<not> truthy (getitem_or_none pm1 persona ''image'')
                then setitem pm1 persona ''image'' (PStr []) else pm1"
    have k2: "personas ?pm2 = personas pm \<and> personas_dir ?pm2 = personas_dir pm
        \<and> take (length (objects pm)) (objects ?pm2) = objects pm"
      using keep [of pm1] f by simp
    show ?thesis
      using assms s Inr k2 keep
      by (auto simp: get_persona_def Let_def split: option.splits pyval.splits if_splits)
  qed
  then show "personas pm' = personas pm" and "personas_dir pm' = personas_dir pm"
    and "take (length (objects pm)) (objects pm') = objects pm"
    by simp_all
qed

lemma get_persona_calls_frame:
  "personas (get_persona_calls I pm cs) = personas pm \<and>
   take (length (objects pm)) (objects (get_persona_calls I pm cs)) = objects pm"
proof (induction cs arbitrary: pm)
  case Nil
  then show ?case by simp
next
  case (Cons c cs)
  obtain name rnd where c: "c = (name, rnd)" by (cases c)
  let ?pm1 = "snd (get_persona I pm name rnd)"
  have g1: "get_persona I pm name rnd = (fst (get_persona I pm name rnd), ?pm1)" by simp
  note f = get_persona_frame [OF g1]
  have le: "length (objects pm) \<le> length (objects ?pm1)"
    using f(3) by (metis length_take min.cobounded2 min.commute)
  have "take (length (objects pm)) (objects (get_persona_calls I ?pm1 cs))
      = take (length (objects pm)) (take (length (objects ?pm1)) (objects (get_persona_calls I ?pm1 cs)))"
    using le by (simp add: min_def)
  also have "\<dots> = objects pm"
    using Cons.IH [of ?pm1] f(3) by simp
  finally show ?case
    using Cons.IH [of ?pm1] f(1) c by simp
qed

lemma get_persona_returns:
  assumes "get_persona I pm name rnd = (Inr r, pm')"
  shows "r = length (objects pm) \<and>
    (\<exists>a \<in> set (dict_values (personas pm)). \<exists>prompt key.
        dict_get (objects pm ! a) ''prompt'' = Some (PStr prompt) \<and>
        objects pm' ! r =
          returned_persona I (objects pm ! a) prompt (os_path_join (personas_dir pm) key))"
proof -
  obtain r1 pm1 where s: "select_persona pm name rnd = (r1, pm1)"
    by (cases "select_persona pm name rnd") auto
  then obtain persona where r1: "r1 = Inr persona"
    using assms by (cases r1) (auto simp: get_persona_def)
  from select_persona_copy [OF s [unfolded r1]] obtain a
    where p: "persona = length (objects pm)" and a: "a \<in> set (dict_values (personas pm))"
      and o1: "objects pm1 = objects pm @ [objects pm ! a]"
    by blast
  let ?d = "objects pm ! a"
  let ?n = "length (objects pm)"
  have d1: "objects pm1 ! ?n = ?d" "?n < length (objects pm1)"
    using o1 by simp_all
  have dir: "personas_dir pm1 = personas_dir pm"
    using select_persona_frame(2) [OF s] .
  let ?pm2 = "if \<not> truthy (getitem_or_none pm1 ?n ''image'')
              then setitem pm1 ?n ''image'' (PStr []) else pm1"
  let ?d2 = "if truthy (case dict_get ?d ''image'' of None \<Rightarrow> PNone | Some v \<Rightarrow> v) then ?d
             else dict_set ?d ''image'' (PStr [])"
  have d2: "objects ?pm2 ! ?n = ?d2" "?n < length (objects ?pm2)" "personas_dir ?pm2 = personas_dir pm"
    using d1 dir by (simp_all add: getitem_or_none_def setitem_frame)
  have pr: "dict_get ?d2 ''prompt'' = dict_get ?d ''prompt''"
    by (simp add: dict_get_dict_set)
  have pr2: "dict_get (objects ?pm2 ! ?n) ''prompt'' = dict_get ?d ''prompt''"
    using d2(1) pr by simp
  have g: "get_persona I pm name rnd =
      (case dict_get (objects ?pm2 ! ?n) ''prompt'' of
                None \<Rightarrow> (Inl KeyError, ?pm2)
              | Some (PStr prompt) \<Rightarrow>
                  (let pm3 = setitem ?pm2 ?n ''prompt'' (PStr (prompt @ I)) in
                   if truthy_opt name then
                     (let persona_key = replace_char CHR '' '' CHR ''_'' (lower (the name)) in
                      (Inr ?n,
                       setitem pm3 ?n ''path'' (PStr (os_path_join (personas_dir pm3) persona_key))))
                   else
                     (case dict_get (objects pm3 ! ?n) ''name'' of
                        None \<Rightarrow> (Inl KeyError, pm3)
                      | Some (PStr n) \<Rightarrow>
                          (let persona_key = replace_char CHR '' '' CHR ''_'' (lower n) in
                           (Inr ?n,
                            setitem pm3 ?n ''path''
                              (PStr (os_path_join (personas_dir pm3) persona_key))))
                      | Some _ \<Rightarrow> (Inl AttributeError, pm3)))
              | Some _ \<Rightarrow> (Inl TypeError, ?pm2))"
    unfolding get_persona_def s r1 p by (simp only: Let_def prod.case sum.case)
  obtain prompt where prm: "dict_get ?d ''prompt'' = Some (PStr prompt)"
    using assms unfolding g pr2 by (auto split: option.splits pyval.splits)
  let ?pm3 = "setitem ?pm2 ?n ''prompt'' (PStr (prompt @ I))"
  have d3: "objects ?pm3 ! ?n = dict_set ?d2 ''prompt'' (PStr (prompt @ I))"
    "?n < length (objects ?pm3)" "personas_dir ?pm3 = personas_dir pm"
    using d2 by (simp_all only: setitem_frame)
  have fin: "\<And>key. objects (setitem ?pm3 ?n ''path'' (PStr (os_path_join (personas_dir ?pm3) key))) ! ?n
      = returned_persona I ?d prompt (os_path_join (personas_dir pm) key)"
    using d3 by (simp only: setitem_frame returned_persona_def)
  have g': "(Inr r, pm') =
      (if truthy_opt name then
         (Inr ?n, setitem ?pm3 ?n ''path''
            (PStr (os_path_join (personas_dir ?pm3) (replace_char CHR '' '' CHR ''_'' (lower (the name))))))
       else
         (case dict_get (objects ?pm3 ! ?n) ''name'' of
            None \<Rightarrow> (Inl KeyError, ?pm3)
          | Some (PStr n) \<Rightarrow>
              (Inr ?n, setitem ?pm3 ?n ''path''
                 (PStr (os_path_join (personas_dir ?pm3) (replace_char CHR '' '' CHR ''_'' (lower n)))))
          | Some _ \<Rightarrow> (Inl AttributeError, ?pm3)))"
    using assms unfolding g pr2 prm by (simp only: Let_def option.case pyval.case)
  have "r = ?n \<and> (\<exists>key. objects pm' ! r = returned_persona I ?d prompt (os_path_join (personas_dir pm) key))"
  proof (cases "truthy_opt name")
    case True
    then have "r = ?n" and "pm' = setitem ?pm3 ?n ''path''
            (PStr (os_path_join (personas_dir ?pm3) (replace_char CHR '' '' CHR ''_'' (lower (the name)))))"
      using g' by (simp_all only: if_True prod.inject sum.inject)
    then show ?thesis using fin by blast
  next
    case False
    then have c: "(Inr r, pm') =
         (case dict_get (objects ?pm3 ! ?n) ''name'' of
            None \<Rightarrow> (Inl KeyError, ?pm3)
          | Some (PStr n) \<Rightarrow>
              (Inr ?n, setitem ?pm3 ?n ''path''
                 (PStr (os_path_join (personas_dir ?pm3) (replace_char CHR '' '' CHR ''_'' (lower n)))))
          | Some _ \<Rightarrow> (Inl AttributeError, ?pm3))"
      using g' by (simp only: if_False)
    then obtain n where "dict_get (objects ?pm3 ! ?n) ''name'' = Some (PStr n)"
      by (cases "dict_get (objects ?pm3 ! ?n) ''name''"; cases "the (dict_get (objects ?pm3 ! ?n) ''name'')") simp_all
    then have "r = ?n" and "pm' = setitem ?pm3 ?n ''path''
            (PStr (os_path_join (personas_dir ?pm3) (replace_char CHR '' '' CHR ''_'' (lower n))))"
      using c by simp_all
    then show ?thesis using fin by blast
  qed
  then show ?thesis using a prm by blast
qed


text \<open>
  C10. Any number of \<open>get_persona\<close> calls, whatever the names, leaves the persona table
  as it was, and leaves unchanged every dictionary object that existed before; so every
  stored record (an allocated object in the table) keeps its prompt and all its fields.
  A call that returns gives back a newly allocated dictionary: the copy of a stored
  record with the image defaulted, the interaction instructions appended to the prompt
  and the path added.
\<close>

theorem get_persona_leaves_table_unchanged:
  "personas (get_persona_calls I pm cs) = personas pm \<and>
   take (length (objects pm)) (objects (get_persona_calls I pm cs)) = objects pm \<and>
   (table_allocated pm \<longrightarrow>
      (\<forall>a \<in> set (dict_values (personas pm)).
         objects (get_persona_calls I pm cs) ! a = objects pm ! a)) \<and>
   (get_persona I pm name rnd = (Inr r, pm') \<longrightarrow>
      r = length (objects pm) \<and>
      (\<exists>a \<in> set (dict_values (personas pm)). \<exists>prompt key.
          dict_get (objects pm ! a) ''prompt'' = Some (PStr prompt) \<and>
          objects pm' ! r =
            returned_persona I (objects pm ! a) prompt (os_path_join (personas_dir pm) key)))"
proof (intro conjI impI ballI)
  show "personas (get_persona_calls I pm cs) = personas pm"
    using get_persona_calls_frame by blast
  show t: "take (length (objects pm)) (objects (get_persona_calls I pm cs)) = objects pm"
    using get_persona_calls_frame by blast
  show "objects (get_persona_calls I pm cs) ! a = objects pm ! a"
    if "table_allocated pm" and "a \<in> set (dict_values (personas pm))" for a
  proof -
    have "a < length (objects pm)"
      using that by (simp add: table_allocated_def)
    then have "take (length (objects pm)) (objects (get_persona_calls I pm cs)) ! a
        = objects (get_persona_calls I pm cs) ! a"
      by simp
    then show ?thesis using t by simp
  qed
  show "r = length (objects pm)" if "get_persona I pm name rnd = (Inr r, pm')"
    using get_persona_returns [OF that] by blast
  show "\<exists>a \<in> set (dict_values (personas pm)). \<exists>prompt key.
          dict_get (objects pm ! a) ''prompt'' = Some (PStr prompt) \<and>
          objects pm' ! r =
            returned_persona I (objects pm ! a) prompt (os_path_join (personas_dir pm) key)"
    if "get_persona I pm name rnd = (Inr r, pm')"
    using get_persona_returns [OF that] by blast
qed

lemma two_personas_call:
  "get_persona ''Be brief.'' two_personas (Some ''Baas Onboarder'') 0 =
     (Inr 2, two_personas\<lparr>objects := objects two_personas @
        [[(''name'', PStr ''BaaS Onboarder''), (''prompt'', PStr ''You help.Be brief.''),
          (''image'', PStr []), (''path'', PStr ''/app/config/personas/baas_onboarder'')]]\<rparr>)"
  by code_simp

theorem get_persona_leaves_table_unchanged_witness:
  "table_allocated two_personas \<and>
   fst (get_persona ''Be brief.'' two_personas (Some ''Baas Onboarder'') 0) = Inr 2 \<and>
   personas (get_persona_calls ''Be brief.'' two_personas
      [(Some ''Baas Onboarder'', 0), (None, 1), (Some ''nobody'', 0)]) = personas two_personas \<and>
   objects (get_persona_calls ''Be brief.'' two_personas
      [(Some ''Baas Onboarder'', 0), (None, 1), (Some ''nobody'', 0)]) ! 0 =
     [(''name'', PStr ''BaaS Onboarder''), (''prompt'', PStr ''You help.''), (''image'', PStr [])] \<and>
   objects (get_persona_calls ''Be brief.'' two_personas
      [(Some ''Baas Onboarder'', 0), (None, 1), (Some ''nobody'', 0)]) ! 1 =
     [(''name'', PStr ''Interviewer''), (''prompt'', PStr ''You ask.''),
      (''image'', PStr ''http://i/x.png'')]"
proof -
  have a: "table_allocated two_personas"
    by (simp add: table_allocated_def two_personas_def dict_values_def)
  have v: "0 \<in> set (dict_values (personas two_personas))"
    "1 \<in> set (dict_values (personas two_personas))"
    by (simp_all add: two_personas_def dict_values_def)
  note t = get_persona_leaves_table_unchanged [of "''Be brief.''" two_personas
      "[(Some ''Baas Onboarder'', 0), (None, 1), (Some ''nobody'', 0)]"
      "Some ''Baas Onboarder''" 0 2 "snd (get_persona ''Be brief.'' two_personas (Some ''Baas Onboarder'') 0)"]
  have o: "objects two_personas ! 0 =
      [(''name'', PStr ''BaaS Onboarder''), (''prompt'', PStr ''You help.''), (''image'', PStr [])]"
    "objects two_personas ! 1 =
      [(''name'', PStr ''Interviewer''), (''prompt'', PStr ''You ask.''),
       (''image'', PStr ''http://i/x.png'')]"
    by (simp_all add: two_personas_def)
  show ?thesis
    using t a v o two_personas_call by simp
qed

section \<open>The leave flow\<close>

lemma wait_for_exit_flags:
  "signal_error (snd (wait_for_exit n p)) = signal_error p \<and>
   kill_effective (snd (wait_for_exit n p)) = kill_effective p \<and>
   (fst (wait_for_exit n p) \<longrightarrow> exited (snd (wait_for_exit n p)))"
proof (induction n arbitrary: p)
  case 0
  then show ?case by simp
next
  case (Suc n)
  show ?case
  proof (cases "exited p")
    case True
    then show ?thesis by (simp add: poll_def called_def)
  next
    case False
    then have step: "wait_for_exit (Suc n) p = wait_for_exit n (sleep (called Poll p))"
      by (simp add: poll_def)
    have "signal_error (sleep (called Poll p)) = signal_error p"
      "kill_effective (sleep (called Poll p)) = kill_effective p"
      by (simp_all add: sleep_def called_def Let_def split: option.splits nat.splits)
    then show ?thesis
      using Suc.IH [of "sleep (called Poll p)"] unfolding step by simp
  qed
qed

lemma last_kill_exited:
  "\<not> signal_error p \<Longrightarrow> kill_effective p \<Longrightarrow> exited (snd (last_kill p))"
  by (simp add: last_kill_def kill_def called_def Let_def)

lemma force_kill_exited:
  "\<not> signal_error p \<Longrightarrow> kill_effective p \<Longrightarrow> exited (snd (force_kill p))"
  by (cases "exited p") (simp_all add: force_kill_def kill_def wait_def called_def Let_def)

lemma terminate_process_gracefully_exited:
  assumes "\<not> signal_error p" and "kill_effective p"
  shows "exited (snd (terminate_process_gracefully p timeout))"
proof (cases "exited p")
  case True
  then show ?thesis by (simp add: terminate_process_gracefully_def poll_def called_def)
next
  case False
  obtain p1 where t: "terminate (called Poll p) = (None, p1)"
    and f1: "\<not> signal_error p1" "kill_effective p1"
    using assms False by (simp add: terminate_def called_def Let_def)
  show ?thesis
  proof (cases "py_int (float_times timeout 10)")
    case (Inl e)
    then show ?thesis
      using False t last_kill_exited [OF f1]
      by (simp add: terminate_process_gracefully_def poll_def)
  next
    case (Inr k)
    obtain b p2 where w: "wait_for_exit (range_len k) p1 = (b, p2)"
      by (cases "wait_for_exit (range_len k) p1") auto
    have fl: "\<not> signal_error p2" "kill_effective p2" "b \<longrightarrow> exited p2"
      using wait_for_exit_flags [of "range_len k" p1] w f1 by simp_all
    show ?thesis
    proof (cases b)
      case True
      then show ?thesis
        using False t w fl Inr by (simp add: terminate_process_gracefully_def poll_def)
    next
      case nb: False
      then show ?thesis
        using False t w Inr force_kill_exited [OF fl(1,2)]
        by (simp add: terminate_process_gracefully_def poll_def)
    qed
  qed
qed


lemma find_client_dict_pop:
  "(find_client (dict_pop md cid) b = None) =
   (\<not> list_ex (\<lambda>(c, details). c \<noteq> cid \<and> length details \<ge> 3 \<and> details ! 2 = PStr b) md)"
  by (induction md) (auto simp: dict_pop_def split: if_splits)

lemma dict_keys_dict_pop: "cid \<notin> set (dict_keys (dict_pop md cid))"
  by (auto simp: dict_keys_def dict_pop_def)

lemma close_websockets_effect:
  fixes s cid ok
  defines "r \<equiv> close_websockets s cid ok"
  shows "trace (snd r) = trace s @ [MarkClosing cid]
           @ (if cid \<in> dom (pipecat_connections s) then [Disconnect cid True] else [])
           @ (if cid \<in> dom (active_connections s) then [Disconnect cid False] else [])
           @ [Pause (1 / 2)]"
    and "MEETING_DETAILS (snd r) = MEETING_DETAILS s"
    and "PIPECAT_PROCESSES (snd r) = PIPECAT_PROCESSES s"
    and "procs (snd r) = procs s"
    and "LOCAL_DEV_MODE (snd r) = LOCAL_DEV_MODE s"
    and "fst r \<Longrightarrow> ok \<and> pipecat_connections (snd r) cid = None \<and> active_connections (snd r) cid = None"
  unfolding r_def
  by (auto simp: close_websockets_def mark_closing_def disconnect_def did_def Let_def
      split: option.splits if_splits)


lemma dict_pop_absent: "cid \<notin> set (dict_keys md) \<Longrightarrow> dict_pop md cid = md"
  by (induction md) (auto simp: dict_pop_def dict_keys_def)

lemma terminate_pipecat_effect:
  assumes "PIPECAT_PROCESSES s cid = Some pid"
  shows "trace (terminate_pipecat s cid) = trace s
           @ (if exited (procs s pid) then [] else [TerminateProcess pid])
           @ [PopProcess cid]
           @ (if cid \<in> set (dict_keys (MEETING_DETAILS s)) then [PopDetails cid] else [])
           @ (if LOCAL_DEV_MODE s \<and> cid \<noteq> [] then [ReleaseNgrok cid] else [])"
    and "MEETING_DETAILS (terminate_pipecat s cid) = dict_pop (MEETING_DETAILS s) cid"
    and "PIPECAT_PROCESSES (terminate_pipecat s cid) = (PIPECAT_PROCESSES s)(cid := None)"
    and "pipecat_connections (terminate_pipecat s cid) = pipecat_connections s"
    and "active_connections (terminate_pipecat s cid) = active_connections s"
    and "procs (terminate_pipecat s cid) pid =
           (if exited (procs s pid) then called Poll (procs s pid)
            else snd (terminate_process_gracefully (called Poll (procs s pid)) (Finite 3)))"
  using assms
  by (auto simp: terminate_pipecat_def poll_def did_def Let_def dict_pop_absent
      split: bool.splits)

lemma leave_bot_found:
  assumes "str_or b rb = Some mb" and "mb \<noteq> []"
    and "find_client (MEETING_DETAILS s) mb = Some cid" and "cid \<noteq> []"
  shows "leave_bot s b rb key api =
     (let (ok, s2) = close_websockets (did (LeaveApi mb key) s) cid api
      in (Dict [(''message'', ''Bot removal request processed''),
                (''status'', if ok then ''success'' else ''partial''),
                (''bot_id'', mb)],
          if cid \<in> dom (PIPECAT_PROCESSES s2) then terminate_pipecat s2 cid else s2))"
proof -
  have "\<not> (b = [] \<and> \<not> truthy_opt rb)"
    using assms(1,2) by (auto simp: str_or_def)
  then show ?thesis
    using assms by (simp add: leave_bot_def Let_def did_def split: prod.splits)
qed






text \<open>
  C2 at a failing input: a session that was created but whose child process was never
  started (no entry in the process table, no sockets). The leave flow reports success,
  yet it takes no step that removes state, the session entry is still in the session
  table, and the remote bot id still resolves to the session.
\<close>

theorem leave_without_process_keeps_session:
  "response_status
     (fst (leave_bot
        (one_session Map.empty Map.empty Map.empty
           \<lparr>exited = True, sigterm_ticks = None, countdown = None, signal_error = False,
            kill_effective = True, calls = []\<rparr>)
        ''b1'' None ''key'' True)) = Some ''success'' \<and>
   resolve_by_remote_id
     (snd (leave_bot
        (one_session Map.empty Map.empty Map.empty
           \<lparr>exited = True, sigterm_ticks = None, countdown = None, signal_error = False,
            kill_effective = True, calls = []\<rparr>)
        ''b1'' None ''key'' True)) ''b1'' = Some ''c1'' \<and>
   trace
     (snd (leave_bot
        (one_session Map.empty Map.empty Map.empty
           \<lparr>exited = True, sigterm_ticks = None, countdown = None, signal_error = False,
            kill_effective = True, calls = []\<rparr>)
        ''b1'' None ''key'' True)) =
     [LeaveApi ''b1'' ''key'', MarkClosing ''c1'', Pause (1 / 2)]"
  by (simp add: leave_bot_def one_session_def str_or_def close_websockets_def mark_closing_def
      did_def resolve_by_remote_id_def dict_get_def Let_def)

lemma leave_bot_success:
  assumes "str_or b rb = Some mb" and "mb \<noteq> []"
    and "find_client (MEETING_DETAILS s) mb = Some cid" and "cid \<noteq> []"
    and "PIPECAT_PROCESSES s cid = Some pid"
    and "response_status (fst (leave_bot s b rb key api)) = Some ''success''"
  shows "MEETING_DETAILS (snd (leave_bot s b rb key api)) = dict_pop (MEETING_DETAILS s) cid"
    and "PIPECAT_PROCESSES (snd (leave_bot s b rb key api)) cid = None"
    and "pipecat_connections (snd (leave_bot s b rb key api)) cid = None"
    and "active_connections (snd (leave_bot s b rb key api)) cid = None"
    and "procs (snd (leave_bot s b rb key api)) pid =
           (if exited (procs s pid) then called Poll (procs s pid)
            else snd (terminate_process_gracefully (called Poll (procs s pid)) (Finite 3)))"
proof -
  let ?s1 = "did (LeaveApi mb key) s"
  obtain ok s2 where c: "close_websockets ?s1 cid api = (ok, s2)"
    by (cases "close_websockets ?s1 cid api") auto
  note e = close_websockets_effect [of ?s1 cid api, unfolded c, simplified]
  have same: "MEETING_DETAILS s2 = MEETING_DETAILS s" "PIPECAT_PROCESSES s2 = PIPECAT_PROCESSES s"
    "procs s2 = procs s"
    using e(2-4) by (simp_all add: did_def)
  have p2: "PIPECAT_PROCESSES s2 cid = Some pid" using assms(5) same by simp
  have l: "leave_bot s b rb key api =
      (Dict [(''message'', ''Bot removal request processed''),
             (''status'', if ok then ''success'' else ''partial''), (''bot_id'', mb)],
       terminate_pipecat s2 cid)"
    using leave_bot_found [OF assms(1-4), of key api] c p2 by (simp add: dom_def)
  have ok: ok
    using assms(6) unfolding l by (simp add: dict_get_def split: if_splits)
  then have gone: "pipecat_connections s2 cid = None" "active_connections s2 cid = None"
    using e(6) by simp_all
  note t = terminate_pipecat_effect [OF p2]
  show "MEETING_DETAILS (snd (leave_bot s b rb key api)) = dict_pop (MEETING_DETAILS s) cid"
    unfolding l using t(2) same by simp
  show "PIPECAT_PROCESSES (snd (leave_bot s b rb key api)) cid = None"
    unfolding l using t(3) by simp
  show "pipecat_connections (snd (leave_bot s b rb key api)) cid = None"
    unfolding l using t(4) gone by simp
  show "active_connections (snd (leave_bot s b rb key api)) cid = None"
    unfolding l using t(5) gone by simp
  show "procs (snd (leave_bot s b rb key api)) pid =
           (if exited (procs s pid) then called Poll (procs s pid)
            else snd (terminate_process_gracefully (called Poll (procs s pid)) (Finite 3)))"
    unfolding l using t(6) same by simp
qed

text \<open>
  The sibling path, a session with an entry in the process table: when the leave flow
  reports success, the session entry, the process entry and both sockets are gone, and
  the child has exited when signals reach it and SIGKILL takes effect.
\<close>

lemma leave_with_process_releases_session:
  assumes "str_or b rb = Some mb" and "mb \<noteq> []"
    and "resolve_by_remote_id s mb = Some cid" and "cid \<noteq> []"
    and "PIPECAT_PROCESSES s cid = Some pid"
    and "response_status (fst (leave_bot s b rb key api)) = Some ''success''"
  shows "(let s' = snd (leave_bot s b rb key api) in
     cid \<notin> set (dict_keys (MEETING_DETAILS s')) \<and>
     (resolve_by_remote_id s' mb = None \<longleftrightarrow> \<not> held_elsewhere s cid mb) \<and>
     PIPECAT_PROCESSES s' cid = None \<and>
     pipecat_connections s' cid = None \<and>
     active_connections s' cid = None \<and>
     (\<not> signal_error (procs s pid) \<and> kill_effective (procs s pid) \<longrightarrow> exited (procs s' pid)))"
proof -
  have f: "find_client (MEETING_DETAILS s) mb = Some cid"
    using assms(3) by (simp add: resolve_by_remote_id_def)
  note r = leave_bot_success [OF assms(1,2) f assms(4,5,6)]
  have ex: "\<not> signal_error (procs s pid) \<and> kill_effective (procs s pid) \<longrightarrow>
      exited (procs (snd (leave_bot s b rb key api)) pid)"
  proof
    assume a: "\<not> signal_error (procs s pid) \<and> kill_effective (procs s pid)"
    then have "\<not> signal_error (called Poll (procs s pid))" "kill_effective (called Poll (procs s pid))"
      by (simp_all add: called_def)
    from terminate_process_gracefully_exited [OF this, of "Finite 3"]
    show "exited (procs (snd (leave_bot s b rb key api)) pid)"
      unfolding r(5) by (simp add: called_def)
  qed
  show ?thesis
    unfolding Let_def
    using r(1-4) ex
    by (simp add: dict_keys_dict_pop find_client_dict_pop resolve_by_remote_id_def
        held_elsewhere_def)
qed

lemma leave_with_process_releases_session_example:
  "(let s = one_session [''c1'' \<mapsto> 7] [''c1'' \<mapsto> \<lparr>ws_id = 1, close_raises = False\<rparr>]
              [''c1'' \<mapsto> \<lparr>ws_id = 2, close_raises = False\<rparr>]
              \<lparr>exited = False, sigterm_ticks = Some 0, countdown = None, signal_error = False,
               kill_effective = True, calls = []\<rparr>;
        r = leave_bot s ''b1'' None ''key'' True
    in response_status (fst r) = Some ''success'' \<and>
       resolve_by_remote_id s ''b1'' = Some ''c1'' \<and>
       resolve_by_remote_id (snd r) ''b1'' = None \<and>
       PIPECAT_PROCESSES (snd r) ''c1'' = None \<and>
       pipecat_connections (snd r) ''c1'' = None \<and>
       active_connections (snd r) ''c1'' = None \<and>
       exited (procs (snd r) 7))"
proof -
  let ?s = "one_session [''c1'' \<mapsto> 7] [''c1'' \<mapsto> \<lparr>ws_id = 1, close_raises = False\<rparr>]
              [''c1'' \<mapsto> \<lparr>ws_id = 2, close_raises = False\<rparr>]
              \<lparr>exited = False, sigterm_ticks = Some 0, countdown = None, signal_error = False,
               kill_effective = True, calls = []\<rparr>"
  have h: "str_or ''b1'' None = Some ''b1''" "''b1'' \<noteq> []"
    "resolve_by_remote_id ?s ''b1'' = Some ''c1''" "''c1'' \<noteq> []"
    "PIPECAT_PROCESSES ?s ''c1'' = Some 7"
    by (simp_all add: str_or_def one_session_def resolve_by_remote_id_def)
  have f: "find_client (MEETING_DETAILS ?s) ''b1'' = Some ''c1''"
    by (simp add: one_session_def)
  have ok: "response_status (fst (leave_bot ?s ''b1'' None ''key'' True)) = Some ''success''"
    unfolding leave_bot_found [OF h(1,2) f h(4)]
    by (simp add: close_websockets_def mark_closing_def disconnect_def did_def one_session_def
        dict_get_def Let_def split: prod.splits)
  have "\<not> held_elsewhere ?s ''c1'' ''b1''"
    by (simp add: held_elsewhere_def one_session_def)
  then show ?thesis
    using leave_with_process_releases_session [OF h ok] h(3) ok
    by (simp add: Let_def one_session_def)
qed

section \<open>Creating a session\<close>

text \<open>
  C9. A session-creation request with an empty meeting URL is answered with the
  validation error (status code 400) and nothing else happens: the server state is the
  one before the call, so the session table has no new entry, the trace has no new
  step (no call to the provider, no other effect), the process table and the child
  processes are as before, and the persona manager is untouched.
\<close>

theorem join_meeting_empty_url_rejected:
  "meeting_url request = [] \<Longrightarrow>
   join_meeting INSTRUCTIONS s pm request env =
     (Inr (JSONResponse [(''message'', ''Meeting URL is required''), (''status'', ''error'')] 400),
      s, pm) \<and>
   MEETING_DETAILS (fst (snd (join_meeting INSTRUCTIONS s pm request env))) = MEETING_DETAILS s \<and>
   trace (fst (snd (join_meeting INSTRUCTIONS s pm request env))) = trace s \<and>
   PIPECAT_PROCESSES (fst (snd (join_meeting INSTRUCTIONS s pm request env))) = PIPECAT_PROCESSES s \<and>
   procs (fst (snd (join_meeting INSTRUCTIONS s pm request env))) = procs s"
  by (simp add: join_meeting_def)

theorem join_meeting_empty_url_rejected_witness:
  "join_meeting ''Be brief.'' idle_server two_personas
     \<lparr>meeting_url = [], bot_name = ''Interviewer'', req_personas = Some [''interviewer''],
      bot_image = None, entry_message = Some ''Hello'', text_message = None,
      context_info = None, extra = None, enable_tools = True, webhook_url = None\<rparr>
     \<lparr>api_key = ''k'', env_WEBHOOK_URL = None, websocket_url = ''wss://bridge.example/ws'',
      temp_client_id = None, uuid4 = ''c1'', choice_of_key = 0, choice_of_persona = 0,
      created_bot_id = Some ''b1''\<rparr> =
     (Inr (JSONResponse [(''message'', ''Meeting URL is required''), (''status'', ''error'')] 400),
      idle_server, two_personas)"
  using join_meeting_empty_url_rejected
    [of "\<lparr>meeting_url = [], bot_name = ''Interviewer'', req_personas = Some [''interviewer''],
      bot_image = None, entry_message = Some ''Hello'', text_message = None,
      context_info = None, extra = None, enable_tools = True, webhook_url = None\<rparr>"
      "''Be brief.''" idle_server two_personas
      "\<lparr>api_key = ''k'', env_WEBHOOK_URL = None, websocket_url = ''wss://bridge.example/ws'',
      temp_client_id = None, uuid4 = ''c1'', choice_of_key = 0, choice_of_persona = 0,
      created_bot_id = Some ''b1''\<rparr>"]
  by simp

end
